theory Spec2Isabelle
  imports Complex_Main "HOL-Library.Sublist"
begin

section \<open>JavaScript numbers\<close>

text \<open>
  The components compute with JavaScript numbers. A number is modelled as a real, or one
  of the three non-finite values. Rounding error of the double format and the sign of zero
  are not tracked (a zero divisor is taken as \<open>+0\<close>); everything else follows the IEEE
  rules the language uses: a nonzero number divided by zero is an infinity, \<open>0 / 0\<close> and
  \<open>0 * Infinity\<close> are \<open>NaN\<close>, and every comparison with \<open>NaN\<close> is false. Sums,
  products and quotients are therefore exact here where the language rounds them to
  the nearest double (\<open>1920 * (481 / 1920)\<close> is \<open>481\<close> here and \<open>481.00000000000006\<close> in the
  language); the two agree whenever the exact result is a double, as in every evaluation
  below. No theorem of a claim rests on an arithmetic identity that rounding breaks:
  those about the mappers and the hover loop use the order of the tests, the guards and
  \<open>min\<close>/\<open>max\<close> only.
\<close>

datatype jsnum = Fin real | PosInf | NegInf | NaN

fun js_neg :: "jsnum \<Rightarrow> jsnum" where
  "js_neg (Fin a) = Fin (- a)"
| "js_neg PosInf = NegInf"
| "js_neg NegInf = PosInf"
| "js_neg NaN = NaN"

fun js_add :: "jsnum \<Rightarrow> jsnum \<Rightarrow> jsnum" where
  "js_add (Fin a) (Fin b) = Fin (a + b)"
| "js_add NaN _ = NaN"
| "js_add _ NaN = NaN"
| "js_add PosInf NegInf = NaN"
| "js_add NegInf PosInf = NaN"
| "js_add PosInf _ = PosInf"
| "js_add _ PosInf = PosInf"
| "js_add NegInf _ = NegInf"
| "js_add _ NegInf = NegInf"

definition js_sub :: "jsnum \<Rightarrow> jsnum \<Rightarrow> jsnum" where
  "js_sub a b = js_add a (js_neg b)"

text \<open>The infinity with the sign of \<open>a\<close>, or \<open>NaN\<close> when \<open>a\<close> is zero.\<close>

definition inf_signed :: "real \<Rightarrow> jsnum" where
  "inf_signed a = (if a = 0 then NaN else if 0 < a then PosInf else NegInf)"

fun js_mul :: "jsnum \<Rightarrow> jsnum \<Rightarrow> jsnum" where
  "js_mul (Fin a) (Fin b) = Fin (a * b)"
| "js_mul NaN _ = NaN"
| "js_mul _ NaN = NaN"
| "js_mul (Fin a) PosInf = inf_signed a"
| "js_mul (Fin a) NegInf = inf_signed (- a)"
| "js_mul PosInf (Fin b) = inf_signed b"
| "js_mul NegInf (Fin b) = inf_signed (- b)"
| "js_mul PosInf PosInf = PosInf"
| "js_mul PosInf NegInf = NegInf"
| "js_mul NegInf PosInf = NegInf"
| "js_mul NegInf NegInf = PosInf"

fun js_div :: "jsnum \<Rightarrow> jsnum \<Rightarrow> jsnum" where
  "js_div (Fin a) (Fin b) = (if b = 0 then inf_signed a else Fin (a / b))"
| "js_div NaN _ = NaN"
| "js_div _ NaN = NaN"
| "js_div (Fin a) PosInf = Fin 0"
| "js_div (Fin a) NegInf = Fin 0"
| "js_div PosInf (Fin b) = (if 0 \<le> b then PosInf else NegInf)"
| "js_div NegInf (Fin b) = (if 0 \<le> b then NegInf else PosInf)"
| "js_div PosInf PosInf = NaN"
| "js_div PosInf NegInf = NaN"
| "js_div NegInf PosInf = NaN"
| "js_div NegInf NegInf = NaN"

fun js_lt :: "jsnum \<Rightarrow> jsnum \<Rightarrow> bool" where
  "js_lt (Fin a) (Fin b) = (a < b)"
| "js_lt NaN _ = False"
| "js_lt _ NaN = False"
| "js_lt _ NegInf = False"
| "js_lt PosInf _ = False"
| "js_lt NegInf _ = True"
| "js_lt _ PosInf = True"

fun js_le :: "jsnum \<Rightarrow> jsnum \<Rightarrow> bool" where
  "js_le (Fin a) (Fin b) = (a \<le> b)"
| "js_le NaN _ = False"
| "js_le _ NaN = False"
| "js_le NegInf _ = True"
| "js_le _ PosInf = True"
| "js_le _ NegInf = False"
| "js_le PosInf _ = False"

definition js_gt :: "jsnum \<Rightarrow> jsnum \<Rightarrow> bool" where
  "js_gt a b = js_lt b a"

definition js_ge :: "jsnum \<Rightarrow> jsnum \<Rightarrow> bool" where
  "js_ge a b = js_le b a"

text \<open>\<open>Math.round\<close>: the nearest integer, a tie going up; non-finite values unchanged.\<close>

fun Math_round :: "jsnum \<Rightarrow> jsnum" where
  "Math_round (Fin a) = Fin (of_int \<lfloor>a + 1 / 2\<rfloor>)"
| "Math_round v = v"

text \<open>\<open>Math.min\<close> and \<open>Math.max\<close> of two numbers: \<open>NaN\<close> if either is.\<close>

definition Math_min :: "jsnum \<Rightarrow> jsnum \<Rightarrow> jsnum" where
  "Math_min a b = (if a = NaN \<or> b = NaN then NaN else if js_le a b then a else b)"

definition Math_max :: "jsnum \<Rightarrow> jsnum \<Rightarrow> jsnum" where
  "Math_max a b = (if a = NaN \<or> b = NaN then NaN else if js_le a b then b else a)"


section \<open>Data model\<close>

text \<open>\<open>BBox\<close> of the API types and \<open>BoundingBox\<close> of the selector: four numbers.\<close>

record BBox =
  x1 :: jsnum
  y1 :: jsnum
  x2 :: jsnum
  y2 :: jsnum

text \<open>\<open>SegmentedObject\<close>: a detected region. \<open>object_id\<close> is an integer identifier.\<close>

record SegmentedObject =
  category :: string
  bbox :: BBox
  score :: jsnum
  object_id :: int
  mask_base64 :: string

text \<open>A \<open>DOMRect\<close> as \<open>getBoundingClientRect\<close> returns it (the fields \<open>left\<close>, \<open>top\<close>, \<open>width\<close>, \<open>height\<close> the code reads).\<close>

record DOMRect =
  rect_left :: jsnum
  rect_top :: jsnum
  rect_width :: jsnum
  rect_height :: jsnum

text \<open>The \<open>imageInfo\<close> state of \<open>ObjectDetectionView\<close>.\<close>

record ImageInfo =
  displayWidth :: jsnum
  displayHeight :: jsnum
  offsetX :: jsnum
  offsetY :: jsnum


section \<open>ObjectDetectionView: state and selection\<close>

text \<open>
  The component's React state. A state setter called in a handler or an effect is a
  record update; the callbacks the component invokes on its consumer are collected in a
  list, in call order.
\<close>

record odv_state =
  hoveredObjectId :: "int option"
  clickedObjectId :: "int option"
  maskImages :: "int \<rightharpoonup> string"
  maskOutlines :: "int \<rightharpoonup> string"
  imageInfo :: ImageInfo

datatype odv_event = onObjectClick SegmentedObject

text \<open>
  The live DOM a component reads through its two refs: \<open>None\<close> when \<open>imageRef.current\<close> or
  \<open>containerRef.current\<close> is null, else the bounding rects of the image and the container.
\<close>

record dom_refs =
  imgRect :: "DOMRect option"
  containerRect :: "DOMRect option"

text \<open>\<open>updateImageInfo\<close> of the geometry effect (it returns early when a ref is null).\<close>

definition updateImageInfo :: "dom_refs \<Rightarrow> odv_state \<Rightarrow> odv_state" where
  "updateImageInfo doc s =
     (case imgRect doc of None \<Rightarrow> s
      | Some ir \<Rightarrow>
         (case containerRect doc of None \<Rightarrow> s
          | Some cr \<Rightarrow>
             s\<lparr>imageInfo :=
                 \<lparr>displayWidth = rect_width ir, displayHeight = rect_height ir,
                  offsetX = js_sub (rect_left ir) (rect_left cr),
                  offsetY = js_sub (rect_top ir) (rect_top cr)\<rparr>\<rparr>))"

text \<open>
  The synchronous part of the mask effect: the map from object id to the data URL of its
  mask, for the objects whose \<open>mask_base64\<close> is truthy (a non-empty string). A later
  object with the same id overwrites an earlier one, as \<open>Map.set\<close> does.
\<close>

fun newMaskImages :: "SegmentedObject list \<Rightarrow> (int \<rightharpoonup> string) \<Rightarrow> (int \<rightharpoonup> string)" where
  "newMaskImages [] m = m"
| "newMaskImages (obj # objs) m =
     newMaskImages objs
       (if mask_base64 obj \<noteq> [] then m(object_id obj \<mapsto> ''data:image/png;base64,'' @ mask_base64 obj)
        else m)"

text \<open>
  The three effects whose dependency list holds \<open>objects\<close>, run in source order when the
  \<open>objects\<close> prop is replaced: the mask effect (\<open>setMaskImages\<close>; the outlines arrive later,
  asynchronously), the geometry effect, and the reset effect (\<open>setClickedObjectId(null)\<close>).
  None of them calls \<open>onObjectClick\<close>.
\<close>

definition objectsChanged ::
  "dom_refs \<Rightarrow> SegmentedObject list \<Rightarrow> odv_state \<Rightarrow> odv_state \<times> odv_event list" where
  "objectsChanged doc objs s =
     (let s1 = s\<lparr>maskImages := newMaskImages objs Map.empty\<rparr>;
          s2 = updateImageInfo doc s1;
          s3 = s2\<lparr>clickedObjectId := None\<rparr>
      in (s3, []))"

text \<open>\<open>handleObjectClick\<close>: toggle the selection; the callback only on selecting.\<close>

definition handleObjectClick :: "SegmentedObject \<Rightarrow> odv_state \<Rightarrow> odv_state \<times> odv_event list" where
  "handleObjectClick object s =
     (if clickedObjectId s = Some (object_id object)
      then (s\<lparr>clickedObjectId := None\<rparr>, [])
      else (s\<lparr>clickedObjectId := Some (object_id object)\<rparr>, [onObjectClick object]))"

text \<open>\<open>handleMouseLeave\<close>.\<close>

definition handleMouseLeave :: "odv_state \<Rightarrow> odv_state" where
  "handleMouseLeave s = s\<lparr>hoveredObjectId := None\<rparr>"


section \<open>ObjectDetectionView: coordinate mapping and hover\<close>

text \<open>The props of the component that the handlers read.\<close>

record odv_props =
  objects :: "SegmentedObject list"
  imageWidth :: jsnum
  imageHeight :: jsnum

text \<open>The object \<open>getDisplayBbox\<close> returns.\<close>

record DisplayBbox =
  d_x1 :: jsnum
  d_y1 :: jsnum
  d_x2 :: jsnum
  d_y2 :: jsnum
  d_width :: jsnum
  d_height :: jsnum

text \<open>
  \<open>getDisplayBbox\<close>: original coordinates to display coordinates (relative to the
  container). \<open>None\<close> is the source's \<open>null\<close>.
\<close>

definition getDisplayBbox :: "dom_refs \<Rightarrow> odv_props \<Rightarrow> odv_state \<Rightarrow> BBox \<Rightarrow> DisplayBbox option" where
  "getDisplayBbox doc props s b =
     (if imgRect doc = None \<or> containerRect doc = None \<or>
         displayWidth (imageInfo s) = Fin 0 \<or> displayHeight (imageInfo s) = Fin 0 \<or>
         imageWidth props = Fin 0 \<or> imageHeight props = Fin 0
      then None
      else
        let scaleX = js_div (displayWidth (imageInfo s)) (imageWidth props);
            scaleY = js_div (displayHeight (imageInfo s)) (imageHeight props)
        in Some \<lparr>d_x1 = js_add (offsetX (imageInfo s)) (js_mul (x1 b) scaleX),
                 d_y1 = js_add (offsetY (imageInfo s)) (js_mul (y1 b) scaleY),
                 d_x2 = js_add (offsetX (imageInfo s)) (js_mul (x2 b) scaleX),
                 d_y2 = js_add (offsetY (imageInfo s)) (js_mul (y2 b) scaleY),
                 d_width = js_mul (js_sub (x2 b) (x1 b)) scaleX,
                 d_height = js_mul (js_sub (y2 b) (y1 b)) scaleY\<rparr>)"

record MouseEvent =
  clientX :: jsnum
  clientY :: jsnum

text \<open>
  The body of the hover loop for one object: its display box, moved to image-relative
  coordinates, contains the pointer (borders included). An object whose display box is
  null is skipped (\<open>continue\<close>), so it does not contain the pointer.
\<close>

definition hitsObject ::
  "dom_refs \<Rightarrow> odv_props \<Rightarrow> odv_state \<Rightarrow> jsnum \<Rightarrow> jsnum \<Rightarrow> SegmentedObject \<Rightarrow> bool" where
  "hitsObject doc props s mouseX mouseY obj =
     (case getDisplayBbox doc props s (bbox obj) of
        None \<Rightarrow> False
      | Some displayBbox \<Rightarrow>
          let bboxImageX1 = js_sub (d_x1 displayBbox) (offsetX (imageInfo s));
              bboxImageY1 = js_sub (d_y1 displayBbox) (offsetY (imageInfo s));
              bboxImageX2 = js_sub (d_x2 displayBbox) (offsetX (imageInfo s));
              bboxImageY2 = js_sub (d_y2 displayBbox) (offsetY (imageInfo s))
          in js_ge mouseX bboxImageX1 \<and> js_le mouseX bboxImageX2 \<and>
             js_ge mouseY bboxImageY1 \<and> js_le mouseY bboxImageY2)"

text \<open>
  The loop \<open>for (let i = objects.length - 1; i >= 0; i--)\<close> with its \<open>break\<close>. The
  counter \<open>n\<close> is \<open>i + 1\<close>: the loop starts at \<open>n = objects.length\<close>, reads
  \<open>objects[n - 1]\<close> and stops at \<open>n = 0\<close> with \<open>hoveredId\<close> still null.
\<close>

fun hoverLoop ::
  "dom_refs \<Rightarrow> odv_props \<Rightarrow> odv_state \<Rightarrow> jsnum \<Rightarrow> jsnum \<Rightarrow> nat \<Rightarrow> int option" where
  "hoverLoop doc props s mouseX mouseY 0 = None"
| "hoverLoop doc props s mouseX mouseY (Suc i) =
     (let obj = objects props ! i
      in if hitsObject doc props s mouseX mouseY obj then Some (object_id obj)
         else hoverLoop doc props s mouseX mouseY i)"

text \<open>\<open>handleMouseMove\<close> of \<open>ObjectDetectionView\<close>.\<close>

definition handleMouseMove :: "dom_refs \<Rightarrow> odv_props \<Rightarrow> MouseEvent \<Rightarrow> odv_state \<Rightarrow> odv_state" where
  "handleMouseMove doc props e s =
     (case imgRect doc of
        None \<Rightarrow> s
      | Some ir \<Rightarrow>
          if containerRect doc = None \<or> length (objects props) = 0 then s
          else
            let mouseX = js_sub (clientX e) (rect_left ir);
                mouseY = js_sub (clientY e) (rect_top ir)
            in if js_lt mouseX (Fin 0) \<or> js_lt mouseY (Fin 0) \<or>
                  js_gt mouseX (rect_width ir) \<or> js_gt mouseY (rect_height ir)
               then s\<lparr>hoveredObjectId := None\<rparr>
               else s\<lparr>hoveredObjectId :=
                        hoverLoop doc props s mouseX mouseY (length (objects props))\<rparr>)"


section \<open>BoundingBoxSelector\<close>

text \<open>A pointer position: display-relative and original-image coordinates.\<close>

record Pos =
  pos_x :: jsnum
  pos_y :: jsnum
  originalX :: jsnum
  originalY :: jsnum

text \<open>The \<open>originalImageSize\<close> state, \<open>{width, height}\<close>.\<close>

record ImageSize =
  size_width :: jsnum
  size_height :: jsnum

text \<open>The selector's state (\<open>sel_bbox\<close> is the state variable \<open>bbox\<close>) and its props.\<close>

record bbs_state =
  isDrawing :: bool
  sel_bbox :: "BBox option"
  startPos :: "Pos option"
  currentPos :: "Pos option"
  originalImageSize :: ImageSize

record bbs_props =
  enabled :: bool
  hasOnBboxChange :: bool

datatype bbs_event = onBboxChange "BBox option"

text \<open>
  \<open>getRelativeCoordinates\<close>: the pointer in display-relative and in original-image
  coordinates; null when a ref is null, the original width is zero or the pointer is
  outside the image.
\<close>

definition getRelativeCoordinates :: "dom_refs \<Rightarrow> bbs_state \<Rightarrow> MouseEvent \<Rightarrow> Pos option" where
  "getRelativeCoordinates doc s e =
     (case containerRect doc of
        None \<Rightarrow> None
      | Some rect \<Rightarrow>
         (case imgRect doc of
            None \<Rightarrow> None
          | Some ir \<Rightarrow>
              if size_width (originalImageSize s) = Fin 0 then None
              else
                let x = js_sub (clientX e) (rect_left rect);
                    y = js_sub (clientY e) (rect_top rect);
                    imgX = js_sub (rect_left ir) (rect_left rect);
                    imgY = js_sub (rect_top ir) (rect_top rect);
                    displayWidth = rect_width ir;
                    displayHeight = rect_height ir
                in if js_lt x imgX \<or> js_gt x (js_add imgX displayWidth) \<or>
                      js_lt y imgY \<or> js_gt y (js_add imgY displayHeight)
                   then None
                   else
                     let displayX = js_sub x imgX;
                         displayY = js_sub y imgY;
                         scaleX = js_div (size_width (originalImageSize s)) displayWidth;
                         scaleY = js_div (size_height (originalImageSize s)) displayHeight
                     in Some \<lparr>pos_x = displayX, pos_y = displayY,
                              originalX = Math_round (js_mul displayX scaleX),
                              originalY = Math_round (js_mul displayY scaleY)\<rparr>))"

text \<open>
  The effect \<open>useEffect(() => { if (onBboxChange) onBboxChange(bbox) }, [bbox, onBboxChange])\<close>
  runs after a render in which \<open>bbox\<close> changed identity; it is appended to the calls of the
  handler that set the state. \<open>changed\<close> says whether the handler's \<open>setBbox\<close> changed the
  state: a fresh object literal always does, \<open>null\<close> over \<open>null\<close> does not.
\<close>

definition bboxEffect :: "bbs_props \<Rightarrow> bool \<Rightarrow> bbs_state \<Rightarrow> bbs_event list" where
  "bboxEffect props changed s =
     (if changed \<and> hasOnBboxChange props then [onBboxChange (sel_bbox s)] else [])"

definition handleMouseDown ::
  "dom_refs \<Rightarrow> bbs_props \<Rightarrow> MouseEvent \<Rightarrow> bbs_state \<Rightarrow> bbs_state \<times> bbs_event list" where
  "handleMouseDown doc props e s =
     (if \<not> enabled props then (s, [])
      else case getRelativeCoordinates doc s e of
             None \<Rightarrow> (s, [])
           | Some pos \<Rightarrow>
               let s' = s\<lparr>isDrawing := True, startPos := Some pos, currentPos := Some pos,
                           sel_bbox := None\<rparr>
               in (s', bboxEffect props (sel_bbox s \<noteq> None) s'))"

text \<open>\<open>handleMouseMove\<close> of \<open>BoundingBoxSelector\<close>.\<close>

definition bbs_handleMouseMove ::
  "dom_refs \<Rightarrow> bbs_props \<Rightarrow> MouseEvent \<Rightarrow> bbs_state \<Rightarrow> bbs_state \<times> bbs_event list" where
  "bbs_handleMouseMove doc props e s =
     (if \<not> isDrawing s \<or> \<not> enabled props then (s, [])
      else case getRelativeCoordinates doc s e of
             None \<Rightarrow> (s, [])
           | Some pos \<Rightarrow>
              (case startPos s of
                 None \<Rightarrow> (s, [])
               | Some sp \<Rightarrow>
                   let bx1 = Math_min (originalX sp) (originalX pos);
                       by1 = Math_min (originalY sp) (originalY pos);
                       bx2 = Math_max (originalX sp) (originalX pos);
                       by2 = Math_max (originalY sp) (originalY pos);
                       s' = s\<lparr>currentPos := Some pos,
                               sel_bbox := Some \<lparr>x1 = bx1, y1 = by1, x2 = bx2, y2 = by2\<rparr>\<rparr>
                   in (s', bboxEffect props True s')))"

definition handleMouseUp :: "bbs_props \<Rightarrow> bbs_state \<Rightarrow> bbs_state \<times> bbs_event list" where
  "handleMouseUp props s =
     (if \<not> isDrawing s then (s, [])
      else (s\<lparr>isDrawing := False\<rparr>,
            if sel_bbox s \<noteq> None \<and> hasOnBboxChange props then [onBboxChange (sel_bbox s)] else []))"

definition handleClear :: "bbs_props \<Rightarrow> bbs_state \<Rightarrow> bbs_state \<times> bbs_event list" where
  "handleClear props s =
     (let s' = s\<lparr>sel_bbox := None, startPos := None, currentPos := None, isDrawing := False\<rparr>
      in (s', (if hasOnBboxChange props then [onBboxChange None] else []) @
              bboxEffect props (sel_bbox s \<noteq> None) s'))"


section \<open>Mask outline (createOutline)\<close>

text \<open>
  \<open>ImageData\<close> of the mask canvas: \<open>canvas.width\<close>, \<open>canvas.height\<close> and the RGBA bytes
  \<open>data\<close>, four per pixel, rows first.
\<close>

record ImageData =
  id_width :: nat
  id_height :: nat
  id_data :: "nat list"

text \<open>A pixel of the outline canvas as (R, G, B, A).\<close>

type_synonym rgba = "nat \<times> nat \<times> nat \<times> nat"

definition transparent :: rgba where
  "transparent = (0, 0, 0, 0)"

text \<open>The fill style \<open>#00FFFF\<close>, opaque.\<close>

definition cyan :: rgba where
  "cyan = (0, 255, 255, 255)"

record Canvas =
  cv_width :: nat
  cv_height :: nat
  cv_pixels :: "rgba list"

text \<open>A new canvas of the given size is transparent.\<close>

definition newCanvas :: "nat \<Rightarrow> nat \<Rightarrow> Canvas" where
  "newCanvas w h = \<lparr>cv_width = w, cv_height = h, cv_pixels = replicate (w * h) transparent\<rparr>"

text \<open>\<open>fillRect(x, y, 1, 1)\<close> with the cyan fill style: one pixel, clipped to the canvas.\<close>

definition fillRect1 :: "nat \<Rightarrow> nat \<Rightarrow> Canvas \<Rightarrow> Canvas" where
  "fillRect1 x y c =
     (if x < cv_width c \<and> y < cv_height c
      then c\<lparr>cv_pixels := (cv_pixels c)[y * cv_width c + x := cyan]\<rparr>
      else c)"

text \<open>
  A read \<open>data[i]\<close> of the typed array: \<open>undefined\<close> (here \<open>None\<close>) out of range, and both
  \<open>undefined > 128\<close> and \<open>undefined <= 128\<close> are false.
\<close>

definition readData :: "nat list \<Rightarrow> nat \<Rightarrow> nat option" where
  "readData d i = (if i < length d then Some (d ! i) else None)"

definition gt128 :: "nat option \<Rightarrow> bool" where
  "gt128 v = (case v of None \<Rightarrow> False | Some a \<Rightarrow> 128 < a)"

definition le128 :: "nat option \<Rightarrow> bool" where
  "le128 v = (case v of None \<Rightarrow> False | Some a \<Rightarrow> a \<le> 128)"

text \<open>The loop over \<open>checks\<close>: \<open>isEdge\<close> becomes true at the first hit (\<open>break\<close>).\<close>

fun isEdgeLoop :: "ImageData \<Rightarrow> (int \<times> int) list \<Rightarrow> bool" where
  "isEdgeLoop img [] = False"
| "isEdgeLoop img ((nx, ny) # checks) =
     (if nx < 0 \<or> nx \<ge> int (id_width img) \<or> ny < 0 \<or> ny \<ge> int (id_height img) then True
      else
        let nIdx = (nat ny * id_width img + nat nx) * 4
        in if le128 (readData (id_data img) (nIdx + 3)) then True
           else isEdgeLoop img checks)"

text \<open>The body of the two pixel loops at \<open>(x, y)\<close>.\<close>

definition outlinePixel :: "ImageData \<Rightarrow> nat \<Rightarrow> nat \<Rightarrow> Canvas \<Rightarrow> Canvas" where
  "outlinePixel img y x c =
     (let idx = (y * id_width img + x) * 4;
          alpha = readData (id_data img) (idx + 3)
      in if gt128 alpha then
           (let isEdge = isEdgeLoop img
                  [(int x - 1, int y), (int x + 1, int y), (int x, int y - 1), (int x, int y + 1)]
            in if isEdge then fillRect1 x y c else c)
         else c)"

text \<open>
  \<open>for y in 0 .. height - 1: for x in 0 .. width - 1\<close>, on a new outline canvas of the
  mask's size.
\<close>

definition outlineRow :: "ImageData \<Rightarrow> nat \<Rightarrow> Canvas \<Rightarrow> Canvas" where
  "outlineRow img y c = fold (outlinePixel img y) [0..<id_width img] c"

definition outlineCanvas :: "ImageData \<Rightarrow> Canvas" where
  "outlineCanvas img =
     fold (outlineRow img) [0..<id_height img] (newCanvas (id_width img) (id_height img))"

text \<open>
  What the promise of \<open>createOutline\<close> does: it resolves with a string, or an exception
  escapes the \<open>onload\<close> handler and it never settles. The promise has no reject path.
\<close>

datatype outline_result = Resolved string | Uncaught

text \<open>
  The browser around \<open>createOutline\<close>: what loading the mask URL gives (\<open>None\<close>: the
  \<open>onerror\<close> handler runs), whether \<open>getContext('2d')\<close> returns a context for the mask
  canvas and for the outline canvas, and \<open>toDataURL\<close>.
\<close>

record outline_env =
  loadImage :: "string \<Rightarrow> ImageData option"
  ctxAvailable :: bool
  outlineCtxAvailable :: bool
  toDataURL :: "Canvas \<Rightarrow> string"

text \<open>
  \<open>createOutline\<close>. \<open>getImageData\<close> throws on a canvas with a zero side; that is the
  only statement of the handler that can throw.
\<close>

definition createOutline :: "outline_env \<Rightarrow> string \<Rightarrow> outline_result" where
  "createOutline env maskUrl =
     (case loadImage env maskUrl of
        None \<Rightarrow> Resolved maskUrl
      | Some img \<Rightarrow>
          if \<not> ctxAvailable env then Resolved maskUrl
          else if id_width img = 0 \<or> id_height img = 0 then Uncaught
          else if \<not> outlineCtxAvailable env then Resolved maskUrl
          else Resolved (toDataURL env (outlineCanvas img)))"

text \<open>
  The continuation of the mask effect after \<open>await createOutline(maskUrl)\<close>:
  \<open>newMaskOutlines.set(obj.object_id, outlineUrl)\<close>; and the background image the
  renderer picks for a clicked object whose mask URL is \<open>maskUrl\<close>: the outline when the
  map holds a truthy one, else the raw mask.
\<close>

definition storeOutline :: "int \<Rightarrow> outline_result \<Rightarrow> (int \<rightharpoonup> string) \<Rightarrow> (int \<rightharpoonup> string)" where
  "storeOutline oid r m = (case r of Resolved url \<Rightarrow> m(oid \<mapsto> url) | Uncaught \<Rightarrow> m)"

definition outlineBackground :: "(int \<rightharpoonup> string) \<Rightarrow> int \<Rightarrow> string \<Rightarrow> string" where
  "outlineBackground outlines oid maskUrl =
     (case outlines oid of
        None \<Rightarrow> maskUrl
      | Some url \<Rightarrow> if url \<noteq> [] then url else maskUrl)"


section \<open>Image utilities (validation and preprocessing)\<close>

text \<open>
  A \<open>File\<close>: its name, MIME type, bytes and modification time; \<open>file.size\<close> is the
  number of bytes. \<open>decoded\<close> is what the browser's decoder makes of the bytes when the
  file is loaded into an \<open>Image\<close>: the pixel width and height, or \<open>None\<close> when loading
  fails.
\<close>

record File =
  file_name :: string
  file_type :: string
  bytes :: "nat list"
  lastModified :: nat
  decoded :: "(nat \<times> nat) option"

definition file_size :: "File \<Rightarrow> nat" where
  "file_size f = length (bytes f)"

text \<open>
  The messages the validators return, by their text:
  \<^item> \<open>InvalidType\<close>: ``Please select an image file'';
  \<^item> \<open>TooLarge mb\<close>: ``File too large (mb MB). Maximum size is 10MB. ...'';
  \<^item> \<open>ExceedsLimit\<close>: ``File size exceeds 10MB limit. ...'';
  \<^item> \<open>TooSmall w h\<close>: ``Image too small (w x h px). Minimum 400 x 400 px required ...'';
  \<^item> \<open>DimensionsUnreadable\<close>: ``Failed to read image dimensions. Please try another file.''
\<close>

datatype validation_message =
  InvalidType | TooLarge real | ExceedsLimit | TooSmall nat nat | DimensionsUnreadable

text \<open>\<open>validateImageFile\<close>: \<open>None\<close> is the source's \<open>null\<close> (the file is valid).\<close>

definition validateImageFile :: "File \<Rightarrow> validation_message option" where
  "validateImageFile f =
     (if \<not> prefix ''image/'' (file_type f) then Some InvalidType
      else
        let maxSizeMB = (10 :: real);
            fileSizeMB = real (file_size f) / (1024 * 1024)
        in if fileSizeMB > maxSizeMB then Some (TooLarge fileSizeMB)
           else
             let maxSizeBytes = (10 * 1024 * 1024 :: nat)
             in if file_size f > maxSizeBytes then Some ExceedsLimit
                else None)"

text \<open>\<open>getImageDimensions\<close>: the promise rejects (\<open>None\<close>) when the image fails to load.\<close>

definition getImageDimensions :: "File \<Rightarrow> (nat \<times> nat) option" where
  "getImageDimensions f = decoded f"

text \<open>\<open>validateImageDimensions\<close>, with its \<open>catch\<close> branch.\<close>

definition validateImageDimensions :: "File \<Rightarrow> validation_message option" where
  "validateImageDimensions f =
     (case getImageDimensions f of
        None \<Rightarrow> Some DimensionsUnreadable
      | Some (w, h) \<Rightarrow>
          let minDimension = (400 :: nat)
          in if w < minDimension \<or> h < minDimension then Some (TooSmall w h) else None)"

text \<open>
  The validation at the head of \<open>processImageFile\<close>: \<open>validateImageFile\<close>, and only if it
  passes, \<open>validateImageDimensions\<close>.
\<close>

definition validate :: "File \<Rightarrow> validation_message option" where
  "validate f =
     (case validateImageFile f of
        Some validationError \<Rightarrow> Some validationError
      | None \<Rightarrow> validateImageDimensions f)"

text \<open>The errors \<open>preprocessImage\<close> rejects with.\<close>

datatype preprocess_error = CanvasContextNotAvailable | ImageConversionFailed | FailedToLoadImage

text \<open>
  The browser around \<open>preprocessImage\<close>: whether \<open>getContext('2d')\<close> returns a context,
  the JPEG encoder behind \<open>canvas.toBlob\<close> (the bytes for the image of the file drawn at
  the given width and height with the given quality, \<open>None\<close> when the callback gets
  null), and \<open>Date.now()\<close>.
\<close>

record preprocess_env =
  canvasCtxAvailable :: bool
  toBlob :: "File \<Rightarrow> nat \<Rightarrow> nat \<Rightarrow> real \<Rightarrow> nat list option"
  now :: nat

text \<open>\<open>Math.round\<close> of a quotient of two dimensions, as a dimension.\<close>

definition round_div :: "nat \<Rightarrow> nat \<Rightarrow> nat" where
  "round_div a b = nat \<lfloor>real a / real b + 1 / 2\<rfloor>"

text \<open>The new \<open>(width, height)\<close> computed in \<open>img.onload\<close>.\<close>

definition newDimensions :: "nat \<Rightarrow> nat \<Rightarrow> nat \<Rightarrow> nat \<times> nat" where
  "newDimensions width height maxDimension =
     (if width > maxDimension \<or> height > maxDimension then
        (if width > height then (maxDimension, round_div (height * maxDimension) width)
         else (round_div (width * maxDimension) height, maxDimension))
      else (width, height))"

text \<open>
  \<open>preprocessImage\<close>: \<open>Inl\<close> is a rejection. The returned file is the re-encoded canvas,
  so it decodes to the canvas's width and height.
\<close>

definition preprocessImage :: "preprocess_env \<Rightarrow> File \<Rightarrow> nat \<Rightarrow> real \<Rightarrow> preprocess_error + File" where
  "preprocessImage env file maxDimension quality =
     (if \<not> canvasCtxAvailable env then Inl CanvasContextNotAvailable
      else case decoded file of
             None \<Rightarrow> Inl FailedToLoadImage
           | Some (w, h) \<Rightarrow>
               let (width, height) = newDimensions w h maxDimension
               in (case toBlob env file width height quality of
                     None \<Rightarrow> Inl ImageConversionFailed
                   | Some blob \<Rightarrow>
                       Inr \<lparr>file_name = file_name file, file_type = ''image/jpeg'',
                            bytes = blob, lastModified = now env,
                            decoded = Some (width, height)\<rparr>))"

text \<open>
  \<open>processImageFile\<close> up to \<open>setImage\<close>: the error it shows, or the file it passes on to
  detection.
\<close>

datatype upload_error =
  Invalid validation_message | FailedToResize preprocess_error | ImageIsTooLarge | FailedToProcess

definition processImageFile :: "preprocess_env \<Rightarrow> File \<Rightarrow> upload_error + File" where
  "processImageFile env file =
     (case validateImageFile file of
        Some validationError \<Rightarrow> Inl (Invalid validationError)
      | None \<Rightarrow>
         (case validateImageDimensions file of
            Some dimensionError \<Rightarrow> Inl (Invalid dimensionError)
          | None \<Rightarrow>
             (case getImageDimensions file of
                None \<Rightarrow> Inl FailedToProcess
              | Some (w, h) \<Rightarrow>
                 (case (if w > 1920 \<or> h > 1920 then preprocessImage env file 1920 0.85
                        else Inr file) of
                    Inl preprocessError \<Rightarrow> Inl (FailedToResize preprocessError)
                  | Inr processedFile \<Rightarrow>
                      let maxSizeBytes = (10 * 1024 * 1024 :: nat)
                      in if file_size processedFile > maxSizeBytes then Inl ImageIsTooLarge
                         else Inr processedFile))))"


section \<open>Notions used in the statements, and example inputs\<close>

text \<open>
  The pointer of a mouse event lies inside the rendered image: its image-relative
  coordinates are numbers between zero and the image's displayed width and height.
\<close>

definition pointerInsideImage :: "DOMRect \<Rightarrow> MouseEvent \<Rightarrow> bool" where
  "pointerInsideImage ir e =
     (let mouseX = js_sub (clientX e) (rect_left ir);
          mouseY = js_sub (clientY e) (rect_top ir)
      in js_le (Fin 0) mouseX \<and> js_le mouseX (rect_width ir) \<and>
         js_le (Fin 0) mouseY \<and> js_le mouseY (rect_height ir))"


text \<open>
  An example scene: a 400 x 200 image displayed at 200 x 100, ten pixels right of and
  twenty below its container's corner, with three nested regions.
\<close>

definition ex_imgRect :: DOMRect where
  "ex_imgRect = \<lparr>rect_left = Fin 10, rect_top = Fin 20, rect_width = Fin 200, rect_height = Fin 100\<rparr>"

definition ex_containerRect :: DOMRect where
  "ex_containerRect = \<lparr>rect_left = Fin 0, rect_top = Fin 0, rect_width = Fin 300, rect_height = Fin 150\<rparr>"

definition ex_doc :: dom_refs where
  "ex_doc = \<lparr>imgRect = Some ex_imgRect, containerRect = Some ex_containerRect\<rparr>"

definition ex_region :: "int \<Rightarrow> real \<Rightarrow> real \<Rightarrow> real \<Rightarrow> real \<Rightarrow> SegmentedObject" where
  "ex_region i a b c d =
     \<lparr>category = ''sofa'', bbox = \<lparr>x1 = Fin a, y1 = Fin b, x2 = Fin c, y2 = Fin d\<rparr>,
      score = Fin 1, object_id = i, mask_base64 = []\<rparr>"

definition ex_props :: odv_props where
  "ex_props = \<lparr>objects = [ex_region 1 0 0 400 200, ex_region 2 100 50 300 150, ex_region 3 150 60 250 140],
               imageWidth = Fin 400, imageHeight = Fin 200\<rparr>"

definition ex_state :: "int option \<Rightarrow> odv_state" where
  "ex_state h =
     \<lparr>hoveredObjectId = h, clickedObjectId = None, maskImages = Map.empty, maskOutlines = Map.empty,
      imageInfo = \<lparr>displayWidth = Fin 200, displayHeight = Fin 100, offsetX = Fin 10, offsetY = Fin 20\<rparr>\<rparr>"


text \<open>The selector over the same scene, idle, with a consumer attached.\<close>

definition ex_bbs_state :: bbs_state where
  "ex_bbs_state =
     \<lparr>isDrawing = False, sel_bbox = None, startPos = None, currentPos = None,
      originalImageSize = \<lparr>size_width = Fin 400, size_height = Fin 200\<rparr>\<rparr>"

definition ex_bbs_props :: bbs_props where
  "ex_bbs_props = \<lparr>enabled = True, hasOnBboxChange = True\<rparr>"


text \<open>
  What \<open>preprocessImage\<close> does once the new size is known: the file re-encoded as a JPEG
  of \<open>w'\<close> by \<open>h'\<close> pixels under the old name, or the rejection when the encoder gives no
  blob.
\<close>

definition reencoded :: "preprocess_env \<Rightarrow> File \<Rightarrow> nat \<Rightarrow> nat \<Rightarrow> real \<Rightarrow> preprocess_error + File" where
  "reencoded env file w' h' quality =
     (case toBlob env file w' h' quality of
        None \<Rightarrow> Inl ImageConversionFailed
      | Some blob \<Rightarrow>
          Inr \<lparr>file_name = file_name file, file_type = ''image/jpeg'', bytes = blob,
               lastModified = now env, decoded = Some (w', h')\<rparr>)"

text \<open>
  Example files (\<open>n\<close> zero bytes that decode to the given dimensions), an example encoder
  that fails on an empty canvas, and example browsers.
\<close>

definition ex_file :: "string \<Rightarrow> string \<Rightarrow> nat \<Rightarrow> (nat \<times> nat) option \<Rightarrow> File" where
  "ex_file name type n dims =
     \<lparr>file_name = name, file_type = type, bytes = replicate n 0, lastModified = 0, decoded = dims\<rparr>"

definition ex_toBlob :: "File \<Rightarrow> nat \<Rightarrow> nat \<Rightarrow> real \<Rightarrow> nat list option" where
  "ex_toBlob f w h q = (if w = 0 \<or> h = 0 then None else Some [255, 216, 255])"

definition ex_env :: preprocess_env where
  "ex_env = \<lparr>canvasCtxAvailable = True, toBlob = ex_toBlob, now = 1700000000000\<rparr>"

definition ex_outline_env :: outline_env where
  "ex_outline_env =
     \<lparr>loadImage = (\<lambda>url. None), ctxAvailable = True, outlineCtxAvailable = True,
      toDataURL = (\<lambda>c. ''data:image/png;base64,outline'')\<rparr>"


text \<open>
  Notions for the outline: an \<open>ImageData\<close> is well formed when it has four bytes for each
  of its \<open>width * height\<close> pixels, as \<open>getImageData\<close> returns it; \<open>alphaAt\<close> is the source
  alpha at \<open>(x, y)\<close>; a neighbour position is open when it is out of bounds or its alpha is
  at most 128; a pixel is a boundary pixel when one of its four axis-aligned neighbours is
  open, and it is painted when moreover its own alpha exceeds 128.
\<close>

definition wellFormed :: "ImageData \<Rightarrow> bool" where
  "wellFormed img = (length (id_data img) = 4 * id_width img * id_height img)"

definition alphaAt :: "ImageData \<Rightarrow> nat \<Rightarrow> nat \<Rightarrow> nat" where
  "alphaAt img x y = id_data img ! ((y * id_width img + x) * 4 + 3)"

definition neighbourOpen :: "ImageData \<Rightarrow> int \<Rightarrow> int \<Rightarrow> bool" where
  "neighbourOpen img nx ny =
     (if 0 \<le> nx \<and> nx < int (id_width img) \<and> 0 \<le> ny \<and> ny < int (id_height img)
      then alphaAt img (nat nx) (nat ny) \<le> 128
      else True)"

definition isBoundary :: "ImageData \<Rightarrow> nat \<Rightarrow> nat \<Rightarrow> bool" where
  "isBoundary img x y =
     (neighbourOpen img (int x - 1) (int y) \<or> neighbourOpen img (int x + 1) (int y) \<or>
      neighbourOpen img (int x) (int y - 1) \<or> neighbourOpen img (int x) (int y + 1))"

definition paints :: "ImageData \<Rightarrow> nat \<Rightarrow> nat \<Rightarrow> bool" where
  "paints img x y = (128 < alphaAt img x y \<and> isBoundary img x y)"

text \<open>A canvas of the mask's size, with one pixel for each position.\<close>

definition okCanvas :: "ImageData \<Rightarrow> Canvas \<Rightarrow> bool" where
  "okCanvas img c =
     (cv_width c = id_width img \<and> cv_height c = id_height img \<and>
      length (cv_pixels c) = id_width img * id_height img)"

text \<open>
  A fully opaque mask has alpha 255 everywhere; \<open>onBorder\<close> holds of the positions on the
  outer frame of a \<open>w\<close> by \<open>h\<close> raster. The example mask is 3 by 3 and fully opaque (every
  byte 255).
\<close>

definition fullyOpaque :: "ImageData \<Rightarrow> bool" where
  "fullyOpaque img = (\<forall>x<id_width img. \<forall>y<id_height img. alphaAt img x y = 255)"

definition onBorder :: "nat \<Rightarrow> nat \<Rightarrow> nat \<Rightarrow> nat \<Rightarrow> bool" where
  "onBorder w h x y = (x = 0 \<or> Suc x = w \<or> y = 0 \<or> Suc y = h)"

definition ex_mask :: ImageData where
  "ex_mask = \<lparr>id_width = 3, id_height = 3, id_data = replicate 36 255\<rparr>"

text \<open>A browser that loads the example mask but gives no 2D context.\<close>

definition ex_outline_env_noctx :: outline_env where
  "ex_outline_env_noctx =
     \<lparr>loadImage = (\<lambda>url. Some ex_mask), ctxAvailable = False, outlineCtxAvailable = True,
      toDataURL = (\<lambda>c. ''data:image/png;base64,outline'')\<rparr>"


section \<open>Selection state: theorems\<close>

text \<open>
  C1 (as stated, refuted): replacing the region list while a region is hovered leaves
  \<open>hoveredObjectId\<close> set; only the clicked id is reset.
\<close>

theorem objectsChanged_keeps_hover_counterexample:
  "hoveredObjectId (fst (objectsChanged \<lparr>imgRect = None, containerRect = None\<rparr> []
       \<lparr>hoveredObjectId = Some 1, clickedObjectId = Some 1, maskImages = Map.empty,
        maskOutlines = Map.empty,
        imageInfo = \<lparr>displayWidth = Fin 0, displayHeight = Fin 0, offsetX = Fin 0, offsetY = Fin 0\<rparr>\<rparr>))
   = Some 1"
  by (simp add: objectsChanged_def updateImageInfo_def)

text \<open>
  C1 (amended): every replacement of the region list resets the selected (clicked) id to
  none and emits no event, whatever was hovered or selected; the hovered id is left as it
  was.
\<close>

theorem objectsChanged_resets_clicked:
  "clickedObjectId (fst (objectsChanged doc objs s)) = None \<and>
   snd (objectsChanged doc objs s) = [] \<and>
   hoveredObjectId (fst (objectsChanged doc objs s)) = hoveredObjectId s"
  by (simp add: objectsChanged_def updateImageInfo_def Let_def split: option.splits)

text \<open>
  C3: a click on region \<open>R\<close>. If \<open>R\<close> is the selected region, the selection becomes none
  and no event is emitted; otherwise the selection becomes \<open>R\<close> and \<open>onObjectClick\<close> is
  emitted exactly once, with \<open>R\<close>. The hover is not touched in either case.
\<close>

theorem handleObjectClick_toggle:
  "(clickedObjectId s = Some (object_id R) \<longrightarrow>
      clickedObjectId (fst (handleObjectClick R s)) = None \<and>
      snd (handleObjectClick R s) = []) \<and>
   (clickedObjectId s \<noteq> Some (object_id R) \<longrightarrow>
      clickedObjectId (fst (handleObjectClick R s)) = Some (object_id R) \<and>
      snd (handleObjectClick R s) = [onObjectClick R]) \<and>
   hoveredObjectId (fst (handleObjectClick R s)) = hoveredObjectId s"
  by (simp add: handleObjectClick_def)

theorem handleObjectClick_toggle_witness:
  "handleObjectClick (ex_region 4 0 0 10 10) ((ex_state None)\<lparr>clickedObjectId := Some 4\<rparr>)
     = (ex_state None, []) \<and>
   handleObjectClick (ex_region 4 0 0 10 10) ((ex_state None)\<lparr>clickedObjectId := Some 2\<rparr>)
     = ((ex_state None)\<lparr>clickedObjectId := Some 4\<rparr>, [onObjectClick (ex_region 4 0 0 10 10)])"
proof -
  let ?R = "ex_region 4 0 0 10 10"
  let ?s = "(ex_state None)\<lparr>clickedObjectId := Some 4\<rparr>"
  let ?t = "(ex_state None)\<lparr>clickedObjectId := Some 2\<rparr>"
  have sel: "clickedObjectId ?s = Some (object_id ?R)" and other: "clickedObjectId ?t \<noteq> Some (object_id ?R)"
    by (simp_all add: ex_region_def)
  have a: "clickedObjectId (fst (handleObjectClick ?R ?s)) = None \<and> snd (handleObjectClick ?R ?s) = []"
    using handleObjectClick_toggle [of ?s ?R] sel by blast
  have b: "clickedObjectId (fst (handleObjectClick ?R ?t)) = Some (object_id ?R) \<and>
      snd (handleObjectClick ?R ?t) = [onObjectClick ?R]"
    using handleObjectClick_toggle [of ?t ?R] other by blast
  have c: "fst (handleObjectClick ?R ?s) = ex_state None"
    "fst (handleObjectClick ?R ?t) = ?s"
    by (simp_all add: handleObjectClick_def ex_state_def ex_region_def)
  show ?thesis using a b c by (simp add: prod_eq_iff)
qed

section \<open>Hover hit-testing: theorems\<close>

lemmas ex_defs = ex_imgRect_def ex_containerRect_def ex_doc_def ex_region_def ex_props_def ex_state_def

lemma js_le_not_lt: "js_le a b \<Longrightarrow> \<not> js_lt b a"
  by (cases a; cases b) auto

lemma hoverLoop_find:
  "n \<le> length (objects props) \<Longrightarrow>
   hoverLoop doc props s mx my n =
     map_option object_id (find (hitsObject doc props s mx my) (rev (take n (objects props))))"
proof (induction n)
  case 0
  then show ?case by simp
next
  case (Suc n)
  then have lt: "n < length (objects props)" by simp
  have tk: "take (Suc n) (objects props) = take n (objects props) @ [objects props ! n]"
    using lt by (simp add: take_Suc_conv_app_nth)
  show ?case using Suc.IH lt by (simp add: tk Let_def)
qed

lemma find_rev_all:
  "xs \<noteq> [] \<Longrightarrow> \<forall>x \<in> set xs. P x \<Longrightarrow> find P (rev xs) = Some (last xs)"
  by (cases xs rule: rev_cases) auto

text \<open>
  With finite, nonzero sizes the loop's test is, in exact arithmetic, containment of the
  pointer in the region's box scaled to the display, borders included. (With doubles the
  two sides of each comparison carry the rounding of the scaling; the theorem on the loop
  below does not use this reading.)
\<close>

lemma hitsObject_finite:
  assumes "imgRect doc = Some ir" "containerRect doc = Some cr"
    and "imageInfo s = \<lparr>displayWidth = Fin dw, displayHeight = Fin dh, offsetX = Fin ox, offsetY = Fin oy\<rparr>"
    and "dw \<noteq> 0" "dh \<noteq> 0"
    and "imageWidth props = Fin W" "imageHeight props = Fin H" "W \<noteq> 0" "H \<noteq> 0"
    and "bbox obj = \<lparr>x1 = Fin a1, y1 = Fin b1, x2 = Fin a2, y2 = Fin b2\<rparr>"
  shows "hitsObject doc props s (Fin mx) (Fin my) obj =
     (a1 * (dw / W) \<le> mx \<and> mx \<le> a2 * (dw / W) \<and> b1 * (dh / H) \<le> my \<and> my \<le> b2 * (dh / H))"
  using assms by (simp add: hitsObject_def getDisplayBbox_def js_sub_def js_ge_def Let_def)

text \<open>
  C4 (amended): for every pointer position inside the rendered image and every non-empty
  ordered region list, the handler walks the list in reverse and sets the hover to the
  \<open>object_id\<close> of the first region found whose display rect contains the pointer, that is
  the last such region of the list; when no region's rect contains the pointer the hover
  becomes none, and when all of them contain it the hover is the id of the last region of
  the list. For an empty region list the handler returns early and leaves the state, and
  so the hover, as it was.
\<close>

theorem handleMouseMove_hover:
  "imgRect doc = Some ir \<Longrightarrow> containerRect doc = Some cr \<Longrightarrow> pointerInsideImage ir e \<Longrightarrow>
   mx = js_sub (clientX e) (rect_left ir) \<Longrightarrow> my = js_sub (clientY e) (rect_top ir) \<Longrightarrow>
   (objects props \<noteq> [] \<longrightarrow>
      hoveredObjectId (handleMouseMove doc props e s) =
        map_option object_id (find (hitsObject doc props s mx my) (rev (objects props))) \<and>
      ((\<forall>obj \<in> set (objects props). hitsObject doc props s mx my obj) \<longrightarrow>
         hoveredObjectId (handleMouseMove doc props e s) = Some (object_id (last (objects props)))) \<and>
      ((\<forall>obj \<in> set (objects props). \<not> hitsObject doc props s mx my obj) \<longrightarrow>
         hoveredObjectId (handleMouseMove doc props e s) = None)) \<and>
   (objects props = [] \<longrightarrow> handleMouseMove doc props e s = s)"
proof -
  assume ir: "imgRect doc = Some ir" and cr: "containerRect doc = Some cr"
    and ins: "pointerInsideImage ir e"
    and mx: "mx = js_sub (clientX e) (rect_left ir)" and my: "my = js_sub (clientY e) (rect_top ir)"
  have nb: "\<not> js_lt mx (Fin 0)" "\<not> js_lt my (Fin 0)"
      "\<not> js_gt mx (rect_width ir)" "\<not> js_gt my (rect_height ir)"
    using ins by (simp_all add: pointerInsideImage_def Let_def mx my js_gt_def js_le_not_lt)
  have empty: "objects props = [] \<Longrightarrow> handleMouseMove doc props e s = s"
    using ir by (simp add: handleMouseMove_def)
  have main: "hoveredObjectId (handleMouseMove doc props e s) =
        map_option object_id (find (hitsObject doc props s mx my) (rev (objects props)))"
    if ne: "objects props \<noteq> []"
    using ir cr ne nb hoverLoop_find [of "length (objects props)" props doc s mx my]
    by (simp add: handleMouseMove_def Let_def mx my)
  have allhit: "hoveredObjectId (handleMouseMove doc props e s) = Some (object_id (last (objects props)))"
    if ne: "objects props \<noteq> []" and a: "\<forall>obj \<in> set (objects props). hitsObject doc props s mx my obj"
    using main [OF ne] find_rev_all [OF ne a] by simp
  have nohit: "hoveredObjectId (handleMouseMove doc props e s) = None"
    if ne: "objects props \<noteq> []" and a: "\<forall>obj \<in> set (objects props). \<not> hitsObject doc props s mx my obj"
  proof -
    have "find (hitsObject doc props s mx my) (rev (objects props)) = None"
      using a by (simp add: find_None_iff)
    then show ?thesis using main [OF ne] by simp
  qed
  show ?thesis using empty main allhit nohit by blast
qed


theorem handleMouseMove_hover_witness:
  "pointerInsideImage ex_imgRect \<lparr>clientX = Fin 110, clientY = Fin 70\<rparr> \<and>
   hoveredObjectId (handleMouseMove ex_doc ex_props \<lparr>clientX = Fin 110, clientY = Fin 70\<rparr> (ex_state None))
     = Some 3 \<and>
   handleMouseMove ex_doc (ex_props\<lparr>objects := []\<rparr>) \<lparr>clientX = Fin 110, clientY = Fin 70\<rparr> (ex_state (Some 7))
     = ex_state (Some 7) \<and>
   pointerInsideImage ex_imgRect \<lparr>clientX = Fin 20, clientY = Fin 30\<rparr> \<and>
   hoveredObjectId (handleMouseMove ex_doc (ex_props\<lparr>objects := [ex_region 3 150 60 250 140]\<rparr>)
      \<lparr>clientX = Fin 20, clientY = Fin 30\<rparr> (ex_state (Some 3))) = None"
proof -
  let ?e = "\<lparr>clientX = Fin 110, clientY = Fin 70\<rparr>"
  let ?e' = "\<lparr>clientX = Fin 20, clientY = Fin 30\<rparr>"
  let ?one = "ex_props\<lparr>objects := [ex_region 3 150 60 250 140]\<rparr>"
  have ir: "imgRect ex_doc = Some ex_imgRect" and cr: "containerRect ex_doc = Some ex_containerRect"
    by (simp_all add: ex_doc_def)
  have ins: "pointerInsideImage ex_imgRect ?e" and ins': "pointerInsideImage ex_imgRect ?e'"
    by (simp_all add: pointerInsideImage_def ex_imgRect_def js_sub_def)
  have mx: "Fin 100 = js_sub (clientX ?e) (rect_left ex_imgRect)"
    and my: "Fin 50 = js_sub (clientY ?e) (rect_top ex_imgRect)"
    and mx': "Fin 10 = js_sub (clientX ?e') (rect_left ex_imgRect)"
    and my': "Fin 10 = js_sub (clientY ?e') (rect_top ex_imgRect)"
    by (simp_all add: ex_imgRect_def js_sub_def)
  have h1: "hitsObject ex_doc ex_props (ex_state None) (Fin 100) (Fin 50) (ex_region 1 0 0 400 200)"
    by (simp add: ex_defs hitsObject_def getDisplayBbox_def js_sub_def js_ge_def)
  have h2: "hitsObject ex_doc ex_props (ex_state None) (Fin 100) (Fin 50) (ex_region 2 100 50 300 150)"
    by (simp add: ex_defs hitsObject_def getDisplayBbox_def js_sub_def js_ge_def)
  have h3: "hitsObject ex_doc ex_props (ex_state None) (Fin 100) (Fin 50) (ex_region 3 150 60 250 140)"
    by (simp add: ex_defs hitsObject_def getDisplayBbox_def js_sub_def js_ge_def)
  have objs: "objects ex_props = [ex_region 1 0 0 400 200, ex_region 2 100 50 300 150, ex_region 3 150 60 250 140]"
    by (simp add: ex_props_def)
  have hit: "\<forall>obj \<in> set (objects ex_props). hitsObject ex_doc ex_props (ex_state None) (Fin 100) (Fin 50) obj"
    using h1 h2 h3 by (simp add: objs)
  have ne: "objects ex_props \<noteq> []" and lst: "object_id (last (objects ex_props)) = 3"
    by (simp_all add: objs ex_region_def)
  have "hoveredObjectId (handleMouseMove ex_doc ex_props ?e (ex_state None))
          = Some (object_id (last (objects ex_props)))"
    using handleMouseMove_hover [OF ir cr ins mx my, of ex_props "ex_state None"] ne hit
    by blast
  then have a: "hoveredObjectId (handleMouseMove ex_doc ex_props ?e (ex_state None)) = Some 3"
    by (simp only: lst)
  have em: "objects (ex_props\<lparr>objects := []\<rparr>) = []" by simp
  have b: "handleMouseMove ex_doc (ex_props\<lparr>objects := []\<rparr>) ?e (ex_state (Some 7)) = ex_state (Some 7)"
    using handleMouseMove_hover [OF ir cr ins mx my, of "ex_props\<lparr>objects := []\<rparr>" "ex_state (Some 7)"] em
    by blast
  have miss: "\<not> hitsObject ex_doc ?one (ex_state (Some 3)) (Fin 10) (Fin 10) (ex_region 3 150 60 250 140)"
    by (simp add: ex_defs hitsObject_def getDisplayBbox_def js_sub_def js_ge_def)
  have one: "objects ?one = [ex_region 3 150 60 250 140]" by simp
  have none: "\<forall>obj \<in> set (objects ?one). \<not> hitsObject ex_doc ?one (ex_state (Some 3)) (Fin 10) (Fin 10) obj"
    using miss by (simp only: one) simp
  have ne1: "objects ?one \<noteq> []" by simp
  have c: "hoveredObjectId (handleMouseMove ex_doc ?one ?e' (ex_state (Some 3))) = None"
    using handleMouseMove_hover [OF ir cr ins' mx' my', of ?one "ex_state (Some 3)"] ne1 none
    by blast
  show ?thesis using ins ins' a b c by simp
qed


text \<open>
  C4 (as stated, refuted): with an empty region list no region contains the pointer, yet
  a pointer move inside the image does not produce ``no hover'': the early return leaves
  a previously hovered id in place.
\<close>

theorem handleMouseMove_empty_list_counterexample:
  "pointerInsideImage ex_imgRect \<lparr>clientX = Fin 110, clientY = Fin 70\<rparr> \<and>
   hoveredObjectId (handleMouseMove ex_doc (ex_props\<lparr>objects := []\<rparr>)
      \<lparr>clientX = Fin 110, clientY = Fin 70\<rparr> (ex_state (Some 7))) \<noteq> None"
  by (simp add: pointerInsideImage_def handleMouseMove_def ex_defs js_sub_def)

section \<open>Drag-to-box selection: theorems\<close>

lemma Math_min_Fin: "Math_min (Fin a) (Fin b) = Fin (min a b)"
  by (simp add: Math_min_def min_def)

lemma Math_max_Fin: "Math_max (Fin a) (Fin b) = Fin (max a b)"
  by (simp add: Math_max_def max_def)

text \<open>
  C6 (amended): two drags over the same two points of original pixel space, one from the
  first point to the second and one back. \<open>p\<close> and \<open>q'\<close> are the recorded start positions,
  \<open>q\<close> and \<open>p'\<close> the positions the pointer-move events map to; \<open>(a1, b1)\<close> and \<open>(a2, b2)\<close>
  are the two points (finite numbers). In both drags the pointer move stores the same
  box, with \<open>x1 = min\<close>, \<open>x2 = max\<close> per axis, so \<open>x1 \<le> x2\<close> and \<open>y1 \<le> y2\<close>; and when a
  consumer is attached, the move emits exactly that box, in original coordinates. That
  is so for every pointer-move whose pointer lies inside the rendered image. A
  pointer-move \<open>e0\<close> that \<open>getRelativeCoordinates\<close> does not map (the pointer outside the
  image) changes nothing and emits nothing.
\<close>

theorem bbs_handleMouseMove_box:
  "enabled props \<Longrightarrow>
   isDrawing s \<Longrightarrow> startPos s = Some p \<Longrightarrow> getRelativeCoordinates doc s e = Some q \<Longrightarrow>
   isDrawing t \<Longrightarrow> startPos t = Some q' \<Longrightarrow> getRelativeCoordinates doc' t e' = Some p' \<Longrightarrow>
   originalX p = Fin a1 \<Longrightarrow> originalY p = Fin b1 \<Longrightarrow>
   originalX q = Fin a2 \<Longrightarrow> originalY q = Fin b2 \<Longrightarrow>
   originalX p' = Fin a1 \<Longrightarrow> originalY p' = Fin b1 \<Longrightarrow>
   originalX q' = Fin a2 \<Longrightarrow> originalY q' = Fin b2 \<Longrightarrow>
   box = \<lparr>x1 = Fin (min a1 a2), y1 = Fin (min b1 b2), x2 = Fin (max a1 a2), y2 = Fin (max b1 b2)\<rparr> \<Longrightarrow>
   sel_bbox (fst (bbs_handleMouseMove doc props e s)) = Some box \<and>
   sel_bbox (fst (bbs_handleMouseMove doc' props e' t)) = Some box \<and>
   js_le (x1 box) (x2 box) \<and> js_le (y1 box) (y2 box) \<and>
   (hasOnBboxChange props \<longrightarrow>
      snd (bbs_handleMouseMove doc props e s) = [onBboxChange (Some box)] \<and>
      snd (bbs_handleMouseMove doc' props e' t) = [onBboxChange (Some box)]) \<and>
   (getRelativeCoordinates doc s e0 = None \<longrightarrow> bbs_handleMouseMove doc props e0 s = (s, []))"
  by (simp add: bbs_handleMouseMove_def bboxEffect_def Math_min_Fin Math_max_Fin Let_def
        min.commute max.commute min_le_iff_disj le_max_iff_disj)


lemma ex_coords_1:
  "originalImageSize s = \<lparr>size_width = Fin 400, size_height = Fin 200\<rparr> \<Longrightarrow>
   getRelativeCoordinates ex_doc s \<lparr>clientX = Fin 30, clientY = Fin 40\<rparr>
   = Some \<lparr>pos_x = Fin 20, pos_y = Fin 20, originalX = Fin 40, originalY = Fin 40\<rparr>"
  by (simp add: getRelativeCoordinates_def ex_doc_def ex_imgRect_def ex_containerRect_def js_sub_def js_gt_def Let_def)

lemma ex_coords_2:
  "originalImageSize s = \<lparr>size_width = Fin 400, size_height = Fin 200\<rparr> \<Longrightarrow>
   getRelativeCoordinates ex_doc s \<lparr>clientX = Fin 110, clientY = Fin 70\<rparr>
   = Some \<lparr>pos_x = Fin 100, pos_y = Fin 50, originalX = Fin 200, originalY = Fin 100\<rparr>"
  by (simp add: getRelativeCoordinates_def ex_doc_def ex_imgRect_def ex_containerRect_def js_sub_def js_gt_def Let_def)

lemma ex_coords_outside:
  "originalImageSize s = \<lparr>size_width = Fin 400, size_height = Fin 200\<rparr> \<Longrightarrow>
   getRelativeCoordinates ex_doc s \<lparr>clientX = Fin 250, clientY = Fin 70\<rparr> = None"
  by (simp add: getRelativeCoordinates_def ex_doc_def ex_imgRect_def ex_containerRect_def js_sub_def js_gt_def Let_def)

theorem bbs_handleMouseMove_box_witness:
  "sel_bbox (fst (bbs_handleMouseMove ex_doc ex_bbs_props \<lparr>clientX = Fin 110, clientY = Fin 70\<rparr>
      (fst (handleMouseDown ex_doc ex_bbs_props \<lparr>clientX = Fin 30, clientY = Fin 40\<rparr> ex_bbs_state))))
     = Some \<lparr>x1 = Fin 40, y1 = Fin 40, x2 = Fin 200, y2 = Fin 100\<rparr> \<and>
   sel_bbox (fst (bbs_handleMouseMove ex_doc ex_bbs_props \<lparr>clientX = Fin 30, clientY = Fin 40\<rparr>
      (fst (handleMouseDown ex_doc ex_bbs_props \<lparr>clientX = Fin 110, clientY = Fin 70\<rparr> ex_bbs_state))))
     = Some \<lparr>x1 = Fin 40, y1 = Fin 40, x2 = Fin 200, y2 = Fin 100\<rparr> \<and>
   snd (bbs_handleMouseMove ex_doc ex_bbs_props \<lparr>clientX = Fin 110, clientY = Fin 70\<rparr>
      (fst (handleMouseDown ex_doc ex_bbs_props \<lparr>clientX = Fin 30, clientY = Fin 40\<rparr> ex_bbs_state)))
     = [onBboxChange (Some \<lparr>x1 = Fin 40, y1 = Fin 40, x2 = Fin 200, y2 = Fin 100\<rparr>)] \<and>
   bbs_handleMouseMove ex_doc ex_bbs_props \<lparr>clientX = Fin 250, clientY = Fin 70\<rparr>
      (fst (handleMouseDown ex_doc ex_bbs_props \<lparr>clientX = Fin 30, clientY = Fin 40\<rparr> ex_bbs_state))
     = (fst (handleMouseDown ex_doc ex_bbs_props \<lparr>clientX = Fin 30, clientY = Fin 40\<rparr> ex_bbs_state), [])"
proof -
  let ?e1 = "\<lparr>clientX = Fin 30, clientY = Fin 40\<rparr>" and ?e2 = "\<lparr>clientX = Fin 110, clientY = Fin 70\<rparr>"
  let ?p1 = "\<lparr>pos_x = Fin 20, pos_y = Fin 20, originalX = Fin 40, originalY = Fin 40\<rparr>"
  let ?p2 = "\<lparr>pos_x = Fin 100, pos_y = Fin 50, originalX = Fin 200, originalY = Fin 100\<rparr>"
  let ?s = "fst (handleMouseDown ex_doc ex_bbs_props ?e1 ex_bbs_state)"
  let ?t = "fst (handleMouseDown ex_doc ex_bbs_props ?e2 ex_bbs_state)"
  have c1: "getRelativeCoordinates ex_doc ex_bbs_state ?e1 = Some ?p1"
    and c2: "getRelativeCoordinates ex_doc ex_bbs_state ?e2 = Some ?p2"
    by (simp_all add: ex_coords_1 ex_coords_2 ex_bbs_state_def)
  have s: "?s = ex_bbs_state\<lparr>isDrawing := True, startPos := Some ?p1, currentPos := Some ?p1, sel_bbox := None\<rparr>"
    and t: "?t = ex_bbs_state\<lparr>isDrawing := True, startPos := Some ?p2, currentPos := Some ?p2, sel_bbox := None\<rparr>"
    by (simp_all add: handleMouseDown_def c1 c2 ex_bbs_props_def Let_def)
  have en: "enabled ex_bbs_props" and has: "hasOnBboxChange ex_bbs_props"
    by (simp_all add: ex_bbs_props_def)
  have ds: "isDrawing ?s" "startPos ?s = Some ?p1" and dt: "isDrawing ?t" "startPos ?t = Some ?p2"
    by (simp_all add: s t)
  have cs: "getRelativeCoordinates ex_doc ?s ?e2 = Some ?p2"
    and ct: "getRelativeCoordinates ex_doc ?t ?e1 = Some ?p1"
    by (rule ex_coords_2, subst s, simp add: ex_bbs_state_def)
       (rule ex_coords_1, subst t, simp add: ex_bbs_state_def)
  have "min (40::real) 200 = 40" "max (40::real) 200 = 200" "min (40::real) 100 = 40" "max (40::real) 100 = 100"
    by simp_all
  then have box: "\<lparr>x1 = Fin 40, y1 = Fin 40, x2 = Fin 200, y2 = Fin 100\<rparr>
      = \<lparr>x1 = Fin (min 40 200), y1 = Fin (min 40 100), x2 = Fin (max 40 200), y2 = Fin (max 40 100)\<rparr>"
    by simp
  have out: "getRelativeCoordinates ex_doc ?s \<lparr>clientX = Fin 250, clientY = Fin 70\<rparr> = None"
    by (rule ex_coords_outside, subst s, simp add: ex_bbs_state_def)
  show ?thesis
    using bbs_handleMouseMove_box [OF en ds cs dt ct _ _ _ _ _ _ _ _ box,
        where ?e0.0 = "\<lparr>clientX = Fin 250, clientY = Fin 70\<rparr>"] has out
    by simp
qed

text \<open>
  C6 (as stated, refuted): in a drag started inside the image, with a consumer attached,
  a pointer-move at a point of the container outside the image stores no box and emits
  nothing, so the live box is not emitted on every pointer-move.
\<close>

theorem bbs_handleMouseMove_outside_counterexample:
  "isDrawing (fst (handleMouseDown ex_doc ex_bbs_props \<lparr>clientX = Fin 30, clientY = Fin 40\<rparr> ex_bbs_state)) \<and>
   enabled ex_bbs_props \<and> hasOnBboxChange ex_bbs_props \<and>
   snd (bbs_handleMouseMove ex_doc ex_bbs_props \<lparr>clientX = Fin 250, clientY = Fin 70\<rparr>
      (fst (handleMouseDown ex_doc ex_bbs_props \<lparr>clientX = Fin 30, clientY = Fin 40\<rparr> ex_bbs_state))) = [] \<and>
   sel_bbox (fst (bbs_handleMouseMove ex_doc ex_bbs_props \<lparr>clientX = Fin 250, clientY = Fin 70\<rparr>
      (fst (handleMouseDown ex_doc ex_bbs_props \<lparr>clientX = Fin 30, clientY = Fin 40\<rparr> ex_bbs_state)))) = None"
proof -
  let ?e1 = "\<lparr>clientX = Fin 30, clientY = Fin 40\<rparr>"
  let ?p1 = "\<lparr>pos_x = Fin 20, pos_y = Fin 20, originalX = Fin 40, originalY = Fin 40\<rparr>"
  let ?s = "fst (handleMouseDown ex_doc ex_bbs_props ?e1 ex_bbs_state)"
  have c1: "getRelativeCoordinates ex_doc ex_bbs_state ?e1 = Some ?p1"
    by (simp add: ex_coords_1 ex_bbs_state_def)
  have s: "?s = ex_bbs_state\<lparr>isDrawing := True, startPos := Some ?p1, currentPos := Some ?p1, sel_bbox := None\<rparr>"
    by (simp add: handleMouseDown_def c1 ex_bbs_props_def Let_def)
  have out: "getRelativeCoordinates ex_doc ?s \<lparr>clientX = Fin 250, clientY = Fin 70\<rparr> = None"
    by (rule ex_coords_outside, subst s, simp add: ex_bbs_state_def)
  have mv: "bbs_handleMouseMove ex_doc ex_bbs_props \<lparr>clientX = Fin 250, clientY = Fin 70\<rparr> ?s = (?s, [])"
    by (simp add: bbs_handleMouseMove_def out)
  have st: "isDrawing ?s" "sel_bbox ?s = None" by (simp_all add: s)
  have pr: "enabled ex_bbs_props" "hasOnBboxChange ex_bbs_props" by (simp_all add: ex_bbs_props_def)
  show ?thesis using st pr by (simp add: mv)
qed


section \<open>Coordinate mapping: theorems\<close>

text \<open>
  The round trip through \<open>getDisplayBbox\<close> and \<open>getRelativeCoordinates\<close> (C7) is not
  stated here. In exact arithmetic it returns \<open>Math.round\<close> of the point; in the language
  it depends on the rounding of doubles, which this theory does not model: an original
  width of 1920 displayed at 481 maps \<open>x = 1920\<close> to \<open>481.00000000000006\<close>, beyond the
  image's right edge, and \<open>getRelativeCoordinates\<close> returns null for a pointer there.
\<close>

text \<open>
  C10: \<open>getRelativeCoordinates\<close> guards only the refs and a zero original width. With an
  image displayed at size zero and the pointer on its corner it does not return null: it
  divides by zero and returns \<open>NaN\<close> coordinates.
\<close>

theorem getRelativeCoordinates_zero_display_NaN:
  "getRelativeCoordinates
     \<lparr>imgRect = Some \<lparr>rect_left = Fin 0, rect_top = Fin 0, rect_width = Fin 0, rect_height = Fin 0\<rparr>,
      containerRect = Some \<lparr>rect_left = Fin 0, rect_top = Fin 0, rect_width = Fin 300, rect_height = Fin 200\<rparr>\<rparr>
     (ex_bbs_state\<lparr>originalImageSize := \<lparr>size_width = Fin 100, size_height = Fin 100\<rparr>\<rparr>)
     \<lparr>clientX = Fin 0, clientY = Fin 0\<rparr>
   = Some \<lparr>pos_x = Fin 0, pos_y = Fin 0, originalX = NaN, originalY = NaN\<rparr>"
  by (simp add: getRelativeCoordinates_def js_sub_def js_gt_def Let_def inf_signed_def)

text \<open>
  The sibling mapper \<open>getDisplayBbox\<close> of \<open>ObjectDetectionView\<close> has the full guard: it
  returns null whenever a ref is missing or one of the four sizes is zero.
\<close>

lemma getDisplayBbox_guarded:
  "imgRect doc = None \<or> containerRect doc = None \<or>
   displayWidth (imageInfo s) = Fin 0 \<or> displayHeight (imageInfo s) = Fin 0 \<or>
   imageWidth props = Fin 0 \<or> imageHeight props = Fin 0 \<Longrightarrow>
   getDisplayBbox doc props s b = None"
  by (auto simp add: getDisplayBbox_def)

section \<open>Validation and preprocessing: theorems\<close>

lemma size_MB_gt: "(real n / (1024 * 1024) > 10) = (n > 10 * 1024 * 1024)"
proof -
  have "(real n / (1024 * 1024) > 10) = (real n > real (10 * 1024 * 1024))"
    by (simp add: field_simps)
  also have "\<dots> = (n > 10 * 1024 * 1024)"
    by (simp only: of_nat_less_iff)
  finally show ?thesis .
qed

lemma validateImageFile_cases:
  "validateImageFile f =
     (if \<not> prefix ''image/'' (file_type f) then Some InvalidType
      else if file_size f > 10 * 1024 * 1024 then Some (TooLarge (real (file_size f) / (1024 * 1024)))
      else None)"
  using size_MB_gt [of "file_size f"] by (simp add: validateImageFile_def Let_def)

text \<open>
  C9 (amended): the checks run in order. Validation fails with \<open>InvalidType\<close> iff the MIME
  type is not an image type; else with \<open>TooLarge\<close> iff the byte size exceeds 10 MiB; else
  with the dimensions-unreadable message iff the file does not decode; else with
  \<open>TooSmall\<close> iff the decoded width or height is below 400; and it succeeds in exactly
  the remaining case. The second size message is never returned.
\<close>

theorem validate_cases:
  "(validate f = Some InvalidType \<longleftrightarrow> \<not> prefix ''image/'' (file_type f)) \<and>
   (validate f = Some (TooLarge (real (file_size f) / (1024 * 1024))) \<longleftrightarrow>
      prefix ''image/'' (file_type f) \<and> file_size f > 10 * 1024 * 1024) \<and>
   (validate f = Some DimensionsUnreadable \<longleftrightarrow>
      prefix ''image/'' (file_type f) \<and> file_size f \<le> 10 * 1024 * 1024 \<and> decoded f = None) \<and>
   ((\<exists>w h. validate f = Some (TooSmall w h)) \<longleftrightarrow>
      prefix ''image/'' (file_type f) \<and> file_size f \<le> 10 * 1024 * 1024 \<and>
      (\<exists>w h. decoded f = Some (w, h) \<and> (w < 400 \<or> h < 400))) \<and>
   (validate f = None \<longleftrightarrow>
      prefix ''image/'' (file_type f) \<and> file_size f \<le> 10 * 1024 * 1024 \<and>
      (\<exists>w h. decoded f = Some (w, h) \<and> 400 \<le> w \<and> 400 \<le> h)) \<and>
   validate f \<noteq> Some ExceedsLimit"
  by (auto simp add: validate_def validateImageFile_cases validateImageDimensions_def
        getImageDimensions_def Let_def split: option.splits if_splits)

lemma ex_file_sel:
  "file_type (ex_file name type n dims) = type"
  "file_size (ex_file name type n dims) = n"
  "decoded (ex_file name type n dims) = dims"
  by (simp_all add: ex_file_def file_size_def)

theorem validate_cases_witness:
  "(\<exists>w h. validate (ex_file ''small.png'' ''image/png'' (2 * 1024 * 1024) (Some (300, 300)))
       = Some (TooSmall w h)) \<and>
   validate (ex_file ''big.jpg'' ''image/jpeg'' (11 * 1024 * 1024) (Some (3000, 2000)))
       = Some (TooLarge 11) \<and>
   validate (ex_file ''room.jpg'' ''image/jpeg'' (2 * 1024 * 1024) (Some (500, 500))) = None"
  using validate_cases [of "ex_file ''small.png'' ''image/png'' (2 * 1024 * 1024) (Some (300, 300))"]
    validate_cases [of "ex_file ''big.jpg'' ''image/jpeg'' (11 * 1024 * 1024) (Some (3000, 2000))"]
    validate_cases [of "ex_file ''room.jpg'' ''image/jpeg'' (2 * 1024 * 1024) (Some (500, 500))"]
  by (simp add: ex_file_sel)

text \<open>
  C9 (as stated, refuted): a text file of 11 MiB exceeds the size limit but fails with
  \<open>InvalidType\<close>, not \<open>TooLarge\<close>; and a 2 MiB file of image type that does not decode
  meets none of the three failure conditions, yet validation does not succeed.
\<close>

theorem validate_iff_counterexample:
  "file_size (ex_file ''notes.txt'' ''text/plain'' (11 * 1024 * 1024) None) > 10 * 1024 * 1024 \<and>
   validate (ex_file ''notes.txt'' ''text/plain'' (11 * 1024 * 1024) None) = Some InvalidType \<and>
   prefix ''image/'' (file_type (ex_file ''broken.png'' ''image/png'' (2 * 1024 * 1024) None)) \<and>
   file_size (ex_file ''broken.png'' ''image/png'' (2 * 1024 * 1024) None) \<le> 10 * 1024 * 1024 \<and>
   decoded (ex_file ''broken.png'' ''image/png'' (2 * 1024 * 1024) None) = None \<and>
   validate (ex_file ''broken.png'' ''image/png'' (2 * 1024 * 1024) None) = Some DimensionsUnreadable"
  by (simp add: validate_def validateImageFile_cases validateImageDimensions_def
        getImageDimensions_def ex_file_sel)


lemma round_div_near:
  assumes "0 < b"
  shows "\<bar>real (round_div a b) - real a / real b\<bar> \<le> 1 / 2"
proof -
  have nn: "0 \<le> real a / real b" by simp
  then have "0 \<le> \<lfloor>real a / real b + 1 / 2\<rfloor>" by simp
  then have "real (round_div a b) = of_int \<lfloor>real a / real b + 1 / 2\<rfloor>"
    by (simp add: round_div_def)
  then show ?thesis by linarith
qed

lemma round_div_le:
  assumes "0 < b" and "a \<le> m * b"
  shows "round_div a b \<le> m"
proof -
  have "real a \<le> real m * real b"
    using assms(2) by (metis of_nat_le_iff of_nat_mult)
  then have "real a / real b \<le> real m"
    using assms(1) by (simp add: field_simps)
  then have "\<lfloor>real a / real b + 1 / 2\<rfloor> \<le> int m" by linarith
  then show ?thesis by (simp add: round_div_def)
qed

lemma newDimensions_resize:
  assumes big: "maxDimension < max w h"
  shows "max (fst (newDimensions w h maxDimension)) (snd (newDimensions w h maxDimension)) = maxDimension \<and>
     (if h < w
      then fst (newDimensions w h maxDimension) = maxDimension \<and>
           \<bar>real (snd (newDimensions w h maxDimension)) - real h * real maxDimension / real w\<bar> \<le> 1 / 2
      else snd (newDimensions w h maxDimension) = maxDimension \<and>
           \<bar>real (fst (newDimensions w h maxDimension)) - real w * real maxDimension / real h\<bar> \<le> 1 / 2)"
proof (cases "h < w")
  case True
  then have w0: "0 < w" by simp
  have le: "round_div (h * maxDimension) w \<le> maxDimension"
    using True by (intro round_div_le [OF w0]) (simp add: mult.commute)
  show ?thesis
    using True big le round_div_near [OF w0, of "h * maxDimension"]
    by (simp add: newDimensions_def)
next
  case False
  then have h0: "0 < h" using big by simp
  have le: "round_div (w * maxDimension) h \<le> maxDimension"
    using False by (intro round_div_le [OF h0]) (simp add: mult.commute)
  show ?thesis
    using False big le round_div_near [OF h0, of "w * maxDimension"]
    by (simp add: newDimensions_def)
qed

lemma newDimensions_within: "max w h \<le> maxDimension \<Longrightarrow> newDimensions w h maxDimension = (w, h)"
  by (simp add: newDimensions_def)

lemma preprocessImage_result:
  assumes "canvasCtxAvailable env" and "decoded file = Some (w, h)"
    and "newDimensions w h maxDimension = (w', h')"
  shows "preprocessImage env file maxDimension quality =
     (case toBlob env file w' h' quality of
        None \<Rightarrow> Inl ImageConversionFailed
      | Some blob \<Rightarrow>
          Inr \<lparr>file_name = file_name file, file_type = ''image/jpeg'', bytes = blob,
               lastModified = now env, decoded = Some (w', h')\<rparr>)"
  using assms by (simp add: preprocessImage_def)

text \<open>
  C2 (amended): with a canvas context and a file that decodes to \<open>w\<close> by \<open>h\<close>. If
  \<open>max w h\<close> exceeds \<open>maxDimension\<close>, \<open>preprocessImage\<close> re-encodes the image at a size whose
  longer side equals \<open>maxDimension\<close> and whose shorter side is within half a pixel of the
  aspect-preserving value (the nearest integer). If the image is within bounds,
  \<open>preprocessImage\<close> still re-encodes it as a JPEG, at its own size. The pass-through is
  the caller's: \<open>processImageFile\<close> hands a valid file within 1920 pixels on unchanged.
\<close>

theorem preprocessImage_resize:
  assumes ctx: "canvasCtxAvailable env" and dec: "decoded file = Some (w, h)"
  shows "(maxDimension < max w h \<longrightarrow>
            (\<exists>w' h'. preprocessImage env file maxDimension quality = reencoded env file w' h' quality \<and>
               max w' h' = maxDimension \<and>
               (if h < w
                then w' = maxDimension \<and> \<bar>real h' - real h * real maxDimension / real w\<bar> \<le> 1 / 2
                else h' = maxDimension \<and> \<bar>real w' - real w * real maxDimension / real h\<bar> \<le> 1 / 2))) \<and>
         (max w h \<le> maxDimension \<longrightarrow>
            preprocessImage env file maxDimension quality = reencoded env file w h quality) \<and>
         (max w h \<le> 1920 \<and> validate file = None \<longrightarrow> processImageFile env file = Inr file)"
proof (intro conjI impI)
  assume big: "maxDimension < max w h"
  obtain w' h' where nd: "newDimensions w h maxDimension = (w', h')"
    by (cases "newDimensions w h maxDimension")
  have "preprocessImage env file maxDimension quality = reencoded env file w' h' quality"
    using preprocessImage_result [OF ctx dec nd] by (simp add: reencoded_def)
  moreover have "max w' h' = maxDimension \<and>
       (if h < w
        then w' = maxDimension \<and> \<bar>real h' - real h * real maxDimension / real w\<bar> \<le> 1 / 2
        else h' = maxDimension \<and> \<bar>real w' - real w * real maxDimension / real h\<bar> \<le> 1 / 2)"
    using newDimensions_resize [OF big] unfolding nd fst_conv snd_conv .
  ultimately show "\<exists>w' h'. preprocessImage env file maxDimension quality = reencoded env file w' h' quality \<and>
       max w' h' = maxDimension \<and>
       (if h < w
        then w' = maxDimension \<and> \<bar>real h' - real h * real maxDimension / real w\<bar> \<le> 1 / 2
        else h' = maxDimension \<and> \<bar>real w' - real w * real maxDimension / real h\<bar> \<le> 1 / 2)"
    by blast
next
  assume "max w h \<le> maxDimension"
  then show "preprocessImage env file maxDimension quality = reencoded env file w h quality"
    using preprocessImage_result [OF ctx dec newDimensions_within] by (simp add: reencoded_def)
next
  assume a: "max w h \<le> 1920 \<and> validate file = None"
  then have vf: "validateImageFile file = None" and vd: "validateImageDimensions file = None"
    by (auto simp add: validate_def split: option.splits)
  have sz: "file_size file \<le> 10 * 1024 * 1024"
    using vf by (simp add: validateImageFile_cases split: if_splits)
  show "processImageFile env file = Inr file"
    using a vf vd sz dec by (simp add: processImageFile_def getImageDimensions_def)
qed


lemma nat_near: "\<bar>real (n::nat) - 960\<bar> \<le> 1 / 2 \<Longrightarrow> n = 960"
  by linarith

theorem preprocessImage_resize_witness:
  "preprocessImage ex_env (ex_file ''room.jpg'' ''image/jpeg'' (6 * 1024 * 1024) (Some (4000, 2000))) 1920 0.85
     = Inr \<lparr>file_name = ''room.jpg'', file_type = ''image/jpeg'', bytes = [255, 216, 255],
            lastModified = 1700000000000, decoded = Some (1920, 960)\<rparr> \<and>
   processImageFile ex_env (ex_file ''room.png'' ''image/png'' (2 * 1024 * 1024) (Some (1000, 800)))
     = Inr (ex_file ''room.png'' ''image/png'' (2 * 1024 * 1024) (Some (1000, 800)))"
proof -
  let ?f = "ex_file ''room.jpg'' ''image/jpeg'' (6 * 1024 * 1024) (Some (4000, 2000))"
  let ?g = "ex_file ''room.png'' ''image/png'' (2 * 1024 * 1024) (Some (1000, 800))"
  have ctx: "canvasCtxAvailable ex_env" by (simp add: ex_env_def)
  have df: "decoded ?f = Some (4000, 2000)" and dg: "decoded ?g = Some (1000, 800)"
    by (simp_all add: ex_file_sel)
  have "(1920::nat) < max 4000 2000" by simp
  then obtain w' h' where
    r: "preprocessImage ex_env ?f 1920 0.85 = reencoded ex_env ?f w' h' 0.85"
    and w': "w' = 1920" and h': "\<bar>real h' - real 2000 * real 1920 / real 4000\<bar> \<le> 1 / 2"
    using preprocessImage_resize [OF ctx df, of 1920 "0.85"] by auto
  have h960: "h' = 960" using h' by (intro nat_near) simp
  have "reencoded ex_env ?f 1920 960 0.85
     = Inr \<lparr>file_name = ''room.jpg'', file_type = ''image/jpeg'', bytes = [255, 216, 255],
            lastModified = 1700000000000, decoded = Some (1920, 960)\<rparr>"
    by (simp add: reencoded_def ex_env_def ex_toBlob_def ex_file_def)
  then have a: "preprocessImage ex_env ?f 1920 0.85
     = Inr \<lparr>file_name = ''room.jpg'', file_type = ''image/jpeg'', bytes = [255, 216, 255],
            lastModified = 1700000000000, decoded = Some (1920, 960)\<rparr>"
    by (simp only: r w' h960)
  have vg: "validate ?g = None"
    by (simp add: validate_def validateImageFile_cases validateImageDimensions_def
          getImageDimensions_def ex_file_sel)
  have "max (1000::nat) 800 \<le> 1920" by simp
  then have b: "processImageFile ex_env ?g = Inr ?g"
    using preprocessImage_resize [OF ctx dg, of 1920 "0.85"] vg by blast
  show ?thesis using a b by simp
qed

text \<open>
  Whatever the encoder, a file \<open>preprocessImage\<close> returns is a new JPEG file under the
  old name.
\<close>

lemma preprocessImage_new_file:
  assumes "preprocessImage env file maxDimension quality = Inr f"
  shows "file_type f = ''image/jpeg'' \<and> file_name f = file_name file \<and> lastModified f = now env"
  using assms
  by (auto simp add: preprocessImage_def Let_def split: if_splits option.splits prod.splits)

text \<open>
  C2 (as stated, refuted): a 1000 x 800 PNG is within bounds for \<open>maxDimension = 1920\<close>,
  and \<open>preprocessImage\<close> returns a newly encoded JPEG file, not the input file.
\<close>

theorem preprocessImage_within_bounds_counterexample:
  "max (1000::nat) 800 \<le> 1920 \<and>
   decoded (ex_file ''room.png'' ''image/png'' 5000 (Some (1000, 800))) = Some (1000, 800) \<and>
   preprocessImage ex_env (ex_file ''room.png'' ''image/png'' 5000 (Some (1000, 800))) 1920 0.9
     = Inr \<lparr>file_name = ''room.png'', file_type = ''image/jpeg'', bytes = [255, 216, 255],
            lastModified = 1700000000000, decoded = Some (1000, 800)\<rparr> \<and>
   preprocessImage ex_env (ex_file ''room.png'' ''image/png'' 5000 (Some (1000, 800))) 1920 0.9
     \<noteq> Inr (ex_file ''room.png'' ''image/png'' 5000 (Some (1000, 800)))"
  by (simp add: preprocessImage_def newDimensions_def ex_env_def ex_toBlob_def ex_file_def)


section \<open>Mask outline: theorems\<close>

text \<open>
  C8: when the mask fails to load, or the mask canvas has no 2D context (or the mask
  loaded with a nonempty raster and the outline canvas has none), \<open>createOutline\<close>
  resolves with the raw mask URL: nothing is thrown and nothing rejected. Stored as the
  object's outline, it makes the renderer draw the raw mask.
\<close>

theorem createOutline_fallback:
  "(loadImage env maskUrl = None \<or> \<not> ctxAvailable env \<or>
    (\<exists>img. loadImage env maskUrl = Some img \<and> 0 < id_width img \<and> 0 < id_height img \<and>
           \<not> outlineCtxAvailable env)) \<longrightarrow>
   createOutline env maskUrl = Resolved maskUrl \<and>
   outlineBackground (storeOutline oid (createOutline env maskUrl) outlines) oid maskUrl = maskUrl"
  by (auto simp add: createOutline_def storeOutline_def outlineBackground_def split: option.splits)

theorem createOutline_fallback_witness:
  "loadImage ex_outline_env ''data:image/png;base64,AAAA'' = None \<and>
   createOutline ex_outline_env ''data:image/png;base64,AAAA'' = Resolved ''data:image/png;base64,AAAA'' \<and>
   outlineBackground
     (storeOutline 3 (createOutline ex_outline_env ''data:image/png;base64,AAAA'') Map.empty) 3
     ''data:image/png;base64,AAAA'' = ''data:image/png;base64,AAAA'' \<and>
   \<not> ctxAvailable ex_outline_env_noctx \<and>
   createOutline ex_outline_env_noctx ''data:image/png;base64,AAAA'' = Resolved ''data:image/png;base64,AAAA''"
proof -
  have l: "loadImage ex_outline_env ''data:image/png;base64,AAAA'' = None"
    by (simp add: ex_outline_env_def)
  have n: "\<not> ctxAvailable ex_outline_env_noctx"
    by (simp add: ex_outline_env_noctx_def)
  show ?thesis
    using createOutline_fallback [of ex_outline_env "''data:image/png;base64,AAAA''" 3 Map.empty]
      createOutline_fallback [of ex_outline_env_noctx "''data:image/png;base64,AAAA''" 3 Map.empty] l n
    by blast
qed

text \<open>Otherwise the promise resolves with the encoded outline canvas.\<close>

lemma createOutline_success:
  assumes "loadImage env maskUrl = Some img" "ctxAvailable env" "outlineCtxAvailable env"
    and "0 < id_width img" "0 < id_height img"
  shows "createOutline env maskUrl = Resolved (toDataURL env (outlineCanvas img))"
  using assms by (simp add: createOutline_def)

section \<open>Outline pixels: theorems\<close>

lemma idx_bound:
  assumes "x < (w::nat)" "y < h"
  shows "y * w + x < w * h"
proof -
  have "y * w + x < y * w + w" using assms(1) by simp
  also have "\<dots> = Suc y * w" by simp
  also have "\<dots> \<le> h * w" using assms(2) by (intro mult_le_mono1) simp
  finally show ?thesis by (simp add: mult.commute)
qed

lemma idx_inj:
  assumes "x < (w::nat)" "x' < w" "y * w + x = y' * w + x'"
  shows "x = x' \<and> y = y'"
proof -
  have "(y * w + x) mod w = x" "(y' * w + x') mod w = x'"
    using assms(1,2) by simp_all
  then have x: "x = x'" using assms(3) by metis
  have "(y * w + x) div w = y" "(y' * w + x') div w = y'"
    using assms(1,2) by simp_all
  then have "y = y'" using assms(3) by metis
  with x show ?thesis by simp
qed

lemma readData_alpha:
  assumes "wellFormed img" "x < id_width img" "y < id_height img"
  shows "readData (id_data img) ((y * id_width img + x) * 4 + 3) = Some (alphaAt img x y)"
proof -
  have "y * id_width img + x < id_width img * id_height img"
    using assms(2,3) by (rule idx_bound)
  then have "(y * id_width img + x) * 4 + 3 < length (id_data img)"
    using assms(1) by (simp add: wellFormed_def)
  then show ?thesis by (simp add: readData_def alphaAt_def)
qed

lemma isEdgeLoop_iff:
  assumes "wellFormed img"
  shows "isEdgeLoop img cs = (\<exists>p \<in> set cs. neighbourOpen img (fst p) (snd p))"
proof (induction cs)
  case Nil
  then show ?case by simp
next
  case (Cons p cs)
  obtain nx ny where p: "p = (nx, ny)" by (cases p)
  show ?case
  proof (cases "0 \<le> nx \<and> nx < int (id_width img) \<and> 0 \<le> ny \<and> ny < int (id_height img)")
    case True
    then have "readData (id_data img) ((nat ny * id_width img + nat nx) * 4 + 3)
        = Some (alphaAt img (nat nx) (nat ny))"
      using assms True by (intro readData_alpha) (auto simp add: nat_less_iff)
    then show ?thesis
      using True Cons.IH by (simp add: p neighbourOpen_def le128_def Let_def)
  next
    case False
    then show ?thesis by (auto simp add: p neighbourOpen_def)
  qed
qed

lemma outlinePixel_eq:
  assumes "wellFormed img" "x < id_width img" "y < id_height img"
  shows "outlinePixel img y x c = (if paints img x y then fillRect1 x y c else c)"
  unfolding outlinePixel_def Let_def readData_alpha [OF assms] isEdgeLoop_iff [OF assms(1)]
  by (simp add: gt128_def paints_def isBoundary_def)


lemma fillRect1_ok:
  assumes "okCanvas img c" "x < id_width img" "y < id_height img"
  shows "okCanvas img (fillRect1 x y c)"
    and "j < id_width img * id_height img \<Longrightarrow>
         cv_pixels (fillRect1 x y c) ! j = (if j = y * id_width img + x then cyan else cv_pixels c ! j)"
  using assms by (auto simp add: okCanvas_def fillRect1_def)

lemma row_prefix:
  assumes wf: "wellFormed img" and ok: "okCanvas img c" and y: "y < id_height img"
  shows "n \<le> id_width img \<Longrightarrow>
     okCanvas img (fold (outlinePixel img y) [0..<n] c) \<and>
     (\<forall>j < id_width img * id_height img.
        cv_pixels (fold (outlinePixel img y) [0..<n] c) ! j =
          (if \<exists>x<n. j = y * id_width img + x \<and> paints img x y then cyan else cv_pixels c ! j))"
proof (induction n)
  case 0
  then show ?case using ok by simp
next
  case (Suc n)
  let ?c = "fold (outlinePixel img y) [0..<n] c"
  have n: "n < id_width img" using Suc.prems by simp
  have ih: "okCanvas img ?c"
    "\<And>j. j < id_width img * id_height img \<Longrightarrow>
        cv_pixels ?c ! j = (if \<exists>x<n. j = y * id_width img + x \<and> paints img x y then cyan else cv_pixels c ! j)"
    using Suc.IH n by simp_all
  have step: "fold (outlinePixel img y) [0..<Suc n] c = (if paints img n y then fillRect1 n y ?c else ?c)"
    by (simp add: outlinePixel_eq [OF wf n y])
  show ?case
  proof (cases "paints img n y")
    case True
    have "okCanvas img (fillRect1 n y ?c)" by (rule fillRect1_ok(1) [OF ih(1) n y])
    moreover have "cv_pixels (fillRect1 n y ?c) ! j =
        (if \<exists>x<Suc n. j = y * id_width img + x \<and> paints img x y then cyan else cv_pixels c ! j)"
      if j: "j < id_width img * id_height img" for j
      using fillRect1_ok(2) [OF ih(1) n y j] ih(2) [OF j] True
      by (auto simp add: less_Suc_eq)
    ultimately show ?thesis unfolding step by (simp add: True)
  next
    case False
    have "cv_pixels ?c ! j =
        (if \<exists>x<Suc n. j = y * id_width img + x \<and> paints img x y then cyan else cv_pixels c ! j)"
      if j: "j < id_width img * id_height img" for j
      using ih(2) [OF j] False by (auto simp add: less_Suc_eq)
    then show ?thesis using ih(1) unfolding step by (simp add: False)
  qed
qed

lemma outlineRow_pixels:
  assumes wf: "wellFormed img" and ok: "okCanvas img c" and y: "y < id_height img"
  shows "okCanvas img (outlineRow img y c)"
    and "j < id_width img * id_height img \<Longrightarrow>
         cv_pixels (outlineRow img y c) ! j =
           (if \<exists>x<id_width img. j = y * id_width img + x \<and> paints img x y then cyan else cv_pixels c ! j)"
  using row_prefix [OF wf ok y, of "id_width img"] by (simp_all add: outlineRow_def)

lemma newCanvas_ok:
  "okCanvas img (newCanvas (id_width img) (id_height img))"
  "j < id_width img * id_height img \<Longrightarrow>
     cv_pixels (newCanvas (id_width img) (id_height img)) ! j = transparent"
  by (simp_all add: okCanvas_def newCanvas_def)

lemma rows_prefix:
  assumes wf: "wellFormed img"
  shows "m \<le> id_height img \<Longrightarrow>
     okCanvas img (fold (outlineRow img) [0..<m] (newCanvas (id_width img) (id_height img))) \<and>
     (\<forall>j < id_width img * id_height img.
        cv_pixels (fold (outlineRow img) [0..<m] (newCanvas (id_width img) (id_height img))) ! j =
          (if \<exists>y<m. \<exists>x<id_width img. j = y * id_width img + x \<and> paints img x y
           then cyan else transparent))"
proof (induction m)
  case 0
  then show ?case using newCanvas_ok [where img = img] by simp
next
  case (Suc m)
  let ?c = "fold (outlineRow img) [0..<m] (newCanvas (id_width img) (id_height img))"
  have m: "m < id_height img" using Suc.prems by simp
  have ih: "okCanvas img ?c"
    "\<And>j. j < id_width img * id_height img \<Longrightarrow>
        cv_pixels ?c ! j =
          (if \<exists>y<m. \<exists>x<id_width img. j = y * id_width img + x \<and> paints img x y
           then cyan else transparent)"
    using Suc.IH m by simp_all
  have step: "fold (outlineRow img) [0..<Suc m] (newCanvas (id_width img) (id_height img))
      = outlineRow img m ?c"
    by simp
  have "cv_pixels (outlineRow img m ?c) ! j =
      (if \<exists>y<Suc m. \<exists>x<id_width img. j = y * id_width img + x \<and> paints img x y
       then cyan else transparent)"
    if j: "j < id_width img * id_height img" for j
    using outlineRow_pixels(2) [OF wf ih(1) m j] ih(2) [OF j]
    by (auto simp add: less_Suc_eq)
  then show ?case
    using outlineRow_pixels(1) [OF wf ih(1) m] by (simp only: step) simp
qed

lemma outlineCanvas_nth:
  assumes wf: "wellFormed img" and x: "x < id_width img" and y: "y < id_height img"
  shows "cv_pixels (outlineCanvas img) ! (y * id_width img + x) =
     (if paints img x y then cyan else transparent)"
proof -
  have j: "y * id_width img + x < id_width img * id_height img"
    using x y by (rule idx_bound)
  have "(\<exists>y'<id_height img. \<exists>x'<id_width img.
           y * id_width img + x = y' * id_width img + x' \<and> paints img x' y') = paints img x y"
    using x y idx_inj [of x "id_width img" _ y] by blast
  then show ?thesis
    using rows_prefix [OF wf, of "id_height img"] j by (simp add: outlineCanvas_def)
qed

lemma outlineCanvas_ok:
  assumes wf: "wellFormed img"
  shows "okCanvas img (outlineCanvas img)"
  using rows_prefix [OF wf, of "id_height img"] by (simp add: outlineCanvas_def)


lemma neighbour_inside:
  assumes "fullyOpaque img" "0 \<le> nx" "nx < int (id_width img)" "0 \<le> ny" "ny < int (id_height img)"
  shows "\<not> neighbourOpen img nx ny"
proof -
  have "nat nx < id_width img" "nat ny < id_height img"
    using assms(2-5) by (simp_all add: nat_less_iff)
  then have "alphaAt img (nat nx) (nat ny) = 255"
    using assms(1) by (simp add: fullyOpaque_def)
  then show ?thesis using assms(2-5) by (simp add: neighbourOpen_def)
qed

lemma paints_opaque:
  assumes op: "fullyOpaque img" and x: "x < id_width img" and y: "y < id_height img"
  shows "paints img x y = onBorder (id_width img) (id_height img) x y"
proof -
  have a: "128 < alphaAt img x y" using op x y by (simp add: fullyOpaque_def)
  have l: "neighbourOpen img (int x - 1) (int y) = (x = 0)"
  proof (cases "x = 0")
    case True
    then show ?thesis by (simp add: neighbourOpen_def)
  next
    case False
    then show ?thesis using neighbour_inside [OF op, of "int x - 1" "int y"] x y by simp
  qed
  have r: "neighbourOpen img (int x + 1) (int y) = (Suc x = id_width img)"
  proof (cases "Suc x = id_width img")
    case True
    then have "\<not> int x + 1 < int (id_width img)" by linarith
    then show ?thesis using True by (simp add: neighbourOpen_def)
  next
    case False
    then have "int x + 1 < int (id_width img)" using x by linarith
    then show ?thesis using neighbour_inside [OF op, of "int x + 1" "int y"] y False by simp
  qed
  have u: "neighbourOpen img (int x) (int y - 1) = (y = 0)"
  proof (cases "y = 0")
    case True
    then show ?thesis by (simp add: neighbourOpen_def)
  next
    case False
    then show ?thesis using neighbour_inside [OF op, of "int x" "int y - 1"] x y by simp
  qed
  have d: "neighbourOpen img (int x) (int y + 1) = (Suc y = id_height img)"
  proof (cases "Suc y = id_height img")
    case True
    then have "\<not> int y + 1 < int (id_height img)" by linarith
    then show ?thesis using True by (simp add: neighbourOpen_def)
  next
    case False
    then have "int y + 1 < int (id_height img)" using y by linarith
    then show ?thesis using neighbour_inside [OF op, of "int x" "int y + 1"] x False by simp
  qed
  show ?thesis by (simp add: paints_def isBoundary_def onBorder_def a l r u d)
qed

lemma count_rows:
  assumes w: "0 < (w::nat)"
  shows "length (filter (\<lambda>j. B (j mod w) (j div w)) [0..<k * w])
     = (\<Sum>y<k. length (filter (\<lambda>x. B x y) [0..<w]))"
proof (induction k)
  case 0
  then show ?case by simp
next
  case (Suc k)
  have split: "[0..<Suc k * w] = [0..<k * w] @ map (\<lambda>x. x + k * w) [0..<w]"
  proof -
    have "[0..<Suc k * w] = [0..<k * w + w]" by (simp add: add.commute)
    also have "\<dots> = [0..<k * w] @ [k * w..<k * w + w]"
      by (rule upt_add_eq_append) simp
    also have "[k * w..<k * w + w] = map (\<lambda>x. x + k * w) [0..<w]"
      by (simp add: map_add_upt add.commute)
    finally show ?thesis .
  qed
  have row: "filter ((\<lambda>j. B (j mod w) (j div w)) \<circ> (\<lambda>x. x + k * w)) [0..<w]
      = filter (\<lambda>x. B x k) [0..<w]"
    using w by (intro filter_cong) simp_all
  show ?case
    using Suc.IH by (simp only: split filter_append length_append filter_map length_map row
        sum.lessThan_Suc)
qed

lemma row_count:
  assumes w: "2 \<le> w"
  shows "length (filter (\<lambda>x. onBorder w h x y) [0..<w]) = (if y = 0 \<or> Suc y = h then w else 2)"
proof (cases "y = 0 \<or> Suc y = h")
  case True
  then have "filter (\<lambda>x. onBorder w h x y) [0..<w] = [0..<w]"
    by (simp add: onBorder_def)
  then show ?thesis using True by simp
next
  case False
  have "{i. i < length [0..<w] \<and> onBorder w h ([0..<w] ! i) y} = {0, w - 1}"
    using False w by (auto simp add: onBorder_def)
  moreover have "card {0, w - 1} = 2" using w by simp
  ultimately show ?thesis
    using False by (simp add: length_filter_conv_card)
qed

lemma sum_rows:
  assumes h: "2 \<le> h"
  shows "(\<Sum>y<h. if y = 0 \<or> Suc y = h then w else 2) = 2 * w + 2 * (h - 2)"
proof -
  obtain n where n: "h = Suc (Suc n)"
    using h by (metis add_2_eq_Suc le_Suc_ex)
  define g where "g y = (if y = 0 \<or> Suc y = h then w else (2::nat))" for y
  have mid: "(\<Sum>y<n. g (Suc y)) = (\<Sum>y<n. 2)"
    by (intro sum.cong) (auto simp add: g_def n)
  have "(\<Sum>y<h. g y) = (\<Sum>y<Suc n. g y) + g (Suc n)"
    by (simp add: n)
  also have "(\<Sum>y<Suc n. g y) = g 0 + (\<Sum>y<n. g (Suc y))"
    by (rule sum.lessThan_Suc_shift)
  finally have "(\<Sum>y<h. g y) = w + 2 * n + w"
    by (simp add: mid) (simp add: g_def n)
  then show ?thesis by (simp add: g_def n)
qed


lemma cyan_neq: "cyan \<noteq> transparent"
  by (simp add: cyan_def transparent_def)

lemma opaque_pixels:
  assumes wf: "wellFormed img" and op: "fullyOpaque img" and w: "0 < id_width img"
  shows "cv_pixels (outlineCanvas img) =
     map (\<lambda>j. if onBorder (id_width img) (id_height img) (j mod id_width img) (j div id_width img)
              then cyan else transparent)
       [0..<id_height img * id_width img]"
proof (rule nth_equalityI)
  show "length (cv_pixels (outlineCanvas img)) = length (map (\<lambda>j. if onBorder (id_width img) (id_height img) (j mod id_width img) (j div id_width img)
              then cyan else transparent) [0..<id_height img * id_width img])"
    using outlineCanvas_ok [OF wf] by (simp add: okCanvas_def mult.commute)
next
  fix j assume "j < length (cv_pixels (outlineCanvas img))"
  then have j: "j < id_height img * id_width img"
    using outlineCanvas_ok [OF wf] by (simp add: okCanvas_def mult.commute)
  have x: "j mod id_width img < id_width img" using w by simp
  have y: "j div id_width img < id_height img"
    using j w by (simp add: less_mult_imp_div_less)
  have "cv_pixels (outlineCanvas img) ! (j div id_width img * id_width img + j mod id_width img)
      = (if paints img (j mod id_width img) (j div id_width img) then cyan else transparent)"
    by (rule outlineCanvas_nth [OF wf x y])
  then show "cv_pixels (outlineCanvas img) ! j =
      map (\<lambda>j. if onBorder (id_width img) (id_height img) (j mod id_width img) (j div id_width img)
              then cyan else transparent) [0..<id_height img * id_width img] ! j"
    using j by (simp add: paints_opaque [OF op x y])
qed

lemma opaque_count:
  assumes wf: "wellFormed img" and op: "fullyOpaque img"
    and w: "2 \<le> id_width img" and h: "2 \<le> id_height img"
  shows "length (filter (\<lambda>p. p = cyan) (cv_pixels (outlineCanvas img)))
     = 2 * id_width img + 2 * (id_height img - 2)"
proof -
  have w0: "0 < id_width img" using w by simp
  have "length (filter (\<lambda>p. p = cyan) (cv_pixels (outlineCanvas img)))
      = length (filter (\<lambda>j. onBorder (id_width img) (id_height img) (j mod id_width img) (j div id_width img))
          [0..<id_height img * id_width img])"
    by (simp add: opaque_pixels [OF wf op w0] filter_map comp_def cyan_neq [symmetric])
  also have "\<dots> = (\<Sum>y<id_height img.
      length (filter (\<lambda>x. onBorder (id_width img) (id_height img) x y) [0..<id_width img]))"
    by (rule count_rows [OF w0])
  also have "\<dots> = (\<Sum>y<id_height img. if y = 0 \<or> Suc y = id_height img then id_width img else 2)"
    by (simp only: row_count [OF w])
  also have "\<dots> = 2 * id_width img + 2 * (id_height img - 2)"
    by (rule sum_rows [OF h])
  finally show ?thesis .
qed

text \<open>
  C5: for every well-formed \<open>W\<close> by \<open>H\<close> raster the outline canvas has the same size, and
  its pixel at \<open>(x, y)\<close> is the highlight colour iff the source alpha there exceeds 128 and
  one of the four axis-aligned neighbours is out of bounds or has alpha at most 128;
  every other pixel is transparent. For a fully opaque mask with \<open>W, H > 2\<close> the number of
  painted pixels is \<open>2W + 2H - 4\<close>.
\<close>

theorem outlineCanvas_edges:
  assumes wf: "wellFormed img"
  shows "cv_width (outlineCanvas img) = id_width img \<and>
     cv_height (outlineCanvas img) = id_height img \<and>
     length (cv_pixels (outlineCanvas img)) = id_width img * id_height img \<and>
     (\<forall>x y. x < id_width img \<and> y < id_height img \<longrightarrow>
        cv_pixels (outlineCanvas img) ! (y * id_width img + x) =
          (if 128 < alphaAt img x y \<and> isBoundary img x y then cyan else transparent)) \<and>
     (fullyOpaque img \<and> 2 < id_width img \<and> 2 < id_height img \<longrightarrow>
        length (filter (\<lambda>p. p = cyan) (cv_pixels (outlineCanvas img)))
          = 2 * id_width img + 2 * id_height img - 4)"
proof -
  have ok: "cv_width (outlineCanvas img) = id_width img \<and>
     cv_height (outlineCanvas img) = id_height img \<and>
     length (cv_pixels (outlineCanvas img)) = id_width img * id_height img"
    using outlineCanvas_ok [OF wf] by (simp add: okCanvas_def)
  have px: "cv_pixels (outlineCanvas img) ! (y * id_width img + x) =
          (if 128 < alphaAt img x y \<and> isBoundary img x y then cyan else transparent)"
    if "x < id_width img" "y < id_height img" for x y
    using outlineCanvas_nth [OF wf that] by (simp add: paints_def)
  have cnt: "length (filter (\<lambda>p. p = cyan) (cv_pixels (outlineCanvas img)))
          = 2 * id_width img + 2 * id_height img - 4"
    if "fullyOpaque img" "2 < id_width img" "2 < id_height img"
    using opaque_count [OF wf that(1)] that(2,3) by simp
  show ?thesis using ok px cnt by blast
qed

theorem outlineCanvas_edges_witness:
  "wellFormed ex_mask \<and> fullyOpaque ex_mask \<and>
   length (filter (\<lambda>p. p = cyan) (cv_pixels (outlineCanvas ex_mask))) = 8 \<and>
   cv_pixels (outlineCanvas ex_mask) ! 4 = transparent \<and>
   cv_pixels (outlineCanvas ex_mask) ! 0 = cyan"
proof -
  have wf: "wellFormed ex_mask" by (simp add: wellFormed_def ex_mask_def)
  have al: "alphaAt ex_mask x y = 255" if "x < 3" "y < 3" for x y
    using that by (simp add: alphaAt_def ex_mask_def)
  have op: "fullyOpaque ex_mask"
    using al by (simp add: fullyOpaque_def ex_mask_def)
  have dims: "id_width ex_mask = 3" "id_height ex_mask = 3" by (simp_all add: ex_mask_def)
  note t = outlineCanvas_edges [OF wf, unfolded dims]
  have c: "length (filter (\<lambda>p. p = cyan) (cv_pixels (outlineCanvas ex_mask))) = 8"
    using t op by simp
  have px: "cv_pixels (outlineCanvas ex_mask) ! (y * 3 + x) =
      (if 128 < alphaAt ex_mask x y \<and> isBoundary ex_mask x y then cyan else transparent)"
    if "x < 3" "y < 3" for x y
    using t that by blast
  have b11: "\<not> isBoundary ex_mask 1 1"
    using paints_opaque [OF op, of 1 1] al [of 1 1]
    by (simp add: dims paints_def onBorder_def)
  have b00: "isBoundary ex_mask 0 0"
    by (simp add: isBoundary_def neighbourOpen_def)
  have "cv_pixels (outlineCanvas ex_mask) ! 4 = transparent"
    using px [of 1 1] b11 by simp
  moreover have "cv_pixels (outlineCanvas ex_mask) ! 0 = cyan"
    using px [of 0 0] b00 al [of 0 0] by simp
  ultimately show ?thesis using wf op c by simp
qed

end
